theory Spec2Isabelle
  imports Complex_Main
begin

section \<open>Values shared by the two notebooks\<close>

text \<open>
  The exceptions the notebook code can raise, as values.  \<open>NotImplementedError\<close> carries
  the message of the \<open>raise\<close> statement.  The numpy and pandas errors (\<open>IndexError\<close> on an
  out-of-range row, \<open>KeyError\<close> on a missing dictionary key, \<open>ValueError\<close> from
  \<open>Series.item()\<close>, \<open>argmin\<close> of an empty array or a negative shape, \<open>AttributeError\<close>
  on an attribute of \<open>None\<close>) are constructors without arguments.
\<close>

datatype error =
    NotImplementedError string
  | IndexError
  | KeyError
  | ValueError
  | AttributeError

text \<open>
  A numpy float is a number, or an infinity or NaN (\<open>NonFinite\<close>).  Numbers are idealised
  as \<open>real\<close>: the rounding of a result that is a double is outside the model.  Overflow is
  in the model: a sum, difference or product whose magnitude reaches \<open>2^1024 - 2^970\<close>, the
  least magnitude that rounds above the largest double, is an infinity, and arithmetic on
  an infinity or NaN gives an infinity or NaN.
\<close>

datatype np_float = Finite real | NonFinite

definition overflows :: "real \<Rightarrow> bool" where
  "overflows v = (2 ^ 1024 - 2 ^ 970 \<le> \<bar>v\<bar>)"

definition np_float_of :: "real \<Rightarrow> np_float" where
  "np_float_of v = (if overflows v then NonFinite else Finite v)"

fun np_add :: "np_float \<Rightarrow> np_float \<Rightarrow> np_float" where
  "np_add (Finite a) (Finite b) = np_float_of (a + b)"
| "np_add a b = NonFinite"

fun np_sub :: "np_float \<Rightarrow> np_float \<Rightarrow> np_float" where
  "np_sub (Finite a) (Finite b) = np_float_of (a - b)"
| "np_sub a b = NonFinite"

fun np_mul :: "np_float \<Rightarrow> np_float \<Rightarrow> np_float" where
  "np_mul (Finite a) (Finite b) = np_float_of (a * b)"
| "np_mul a b = NonFinite"

text \<open>\<open>ax.core.types.TParameterization\<close>: a dictionary from parameter names to values, in
  insertion order.\<close>

type_synonym TParameterization = "(string \<times> real) list"

section \<open>The data the random-forest node reads\<close>

text \<open>
  The classes below belong to the optimisation library and are only used by the notebook;
  each is modelled by the attributes the notebook reads.
\<close>

datatype TrialStatus =
    CANDIDATE | STAGED | FAILED | COMPLETED | RUNNING | ABANDONED | DISPATCHED | EARLY_STOPPED

text \<open>A parameter of the search space.  Only \<open>RangeParameter\<close> has \<open>lower\<close> and \<open>upper\<close>.\<close>

datatype Parameter =
    RangeParameter (lower: real) (upper: real)
  | ChoiceParameter "real list"
  | FixedParameter real

fun isinstance_RangeParameter :: "Parameter \<Rightarrow> bool" where
  "isinstance_RangeParameter (RangeParameter lo hi) = True"
| "isinstance_RangeParameter (ChoiceParameter vs) = False"
| "isinstance_RangeParameter (FixedParameter v) = False"

text \<open>\<open>search_space.parameters\<close> is a dictionary name \<open>\<rightarrow>\<close> parameter, kept in insertion
  order; \<open>search_space.parameter_constraints\<close> is a list, of which only emptiness is read.\<close>

record SearchSpace =
  space_parameters :: "(string \<times> Parameter) list"
  parameter_constraints :: "string list"

text \<open>\<open>optimization_config.metrics\<close> is a dictionary keyed by metric name, of which only the
  keys are read; \<open>optimization_config.objective.minimize\<close> is a boolean.\<close>

record OptimizationConfig =
  metrics :: "string list"
  objective_minimize :: bool

text \<open>A trial: its status, the parameters of its arm (\<open>trial.arm.parameters\<close>; \<open>None\<close> when the
  trial has no arm) and the two time stamps the plotting helpers read, in seconds.\<close>

record Trial =
  status :: TrialStatus
  arm :: "TParameterization option"
  time_run_started :: "real option"
  time_completed :: "real option"

text \<open>\<open>experiment.trials\<close> is a dictionary trial index \<open>\<rightarrow>\<close> trial.\<close>

record Experiment =
  search_space :: SearchSpace
  optimization_config :: OptimizationConfig
  trials :: "(nat \<times> Trial) list"

text \<open>A row of \<open>data.df\<close>: the columns \<open>trial_index\<close>, \<open>metric_name\<close> and \<open>mean\<close>.\<close>

record DataRow =
  col_trial_index :: nat
  col_metric_name :: string
  col_mean :: real

text \<open>\<open>experiment.trials_by_status[s]\<close>: the trials whose status is \<open>s\<close>.\<close>

definition trials_by_status :: "Experiment \<Rightarrow> TrialStatus \<Rightarrow> Trial list" where
  "trials_by_status experiment s = filter (\<lambda>t. status t = s) (map snd (trials experiment))"

text \<open>
  The loop of \<open>update_generator_state\<close> tests \<open>trial.status == "COMPLETED"\<close>: a
  \<open>TrialStatus\<close> compared with a string.  What that comparison yields is fixed by the
  declaration of the enumeration, which is library code; it is therefore a parameter
  \<open>status_eq\<close> of the model.  Two instances: an enumeration whose members compare equal to
  their names, and an integer enumeration, no member of which equals a string.
\<close>

fun status_name :: "TrialStatus \<Rightarrow> string" where
  "status_name CANDIDATE = ''CANDIDATE''"
| "status_name STAGED = ''STAGED''"
| "status_name FAILED = ''FAILED''"
| "status_name COMPLETED = ''COMPLETED''"
| "status_name RUNNING = ''RUNNING''"
| "status_name ABANDONED = ''ABANDONED''"
| "status_name DISPATCHED = ''DISPATCHED''"
| "status_name EARLY_STOPPED = ''EARLY_STOPPED''"

definition str_enum_eq :: "TrialStatus \<Rightarrow> string \<Rightarrow> bool" where
  "str_enum_eq s name = (status_name s = name)"

definition int_enum_eq :: "TrialStatus \<Rightarrow> string \<Rightarrow> bool" where
  "int_enum_eq s name = False"

section \<open>RandomForestGenerationNode\<close>

text \<open>
  The state of the node: the attributes set by \<open>__init__\<close>.  The regressor is sklearn's; its
  state is a type parameter \<open>'r\<close>, and its methods \<open>fit\<close> and \<open>predict\<close> are parameters of
  the two methods below.
\<close>

record 'r RandomForestGenerationNode =
  num_samples :: int
  regressor :: 'r
  parameters :: "(string \<times> Parameter) list option"
  minimize :: "bool option"
  fit_time_since_gen :: real

text \<open>\<open>[trial_parameters[p] for p in parameter_names]\<close>: \<open>KeyError\<close> at the first name the
  arm does not have.\<close>

fun lookup_all :: "TParameterization \<Rightarrow> string list \<Rightarrow> error + real list" where
  "lookup_all trial_parameters [] = Inr []"
| "lookup_all trial_parameters (p # ps) =
     (case map_of trial_parameters p of
        None \<Rightarrow> Inl KeyError
      | Some v \<Rightarrow>
          (case lookup_all trial_parameters ps of
             Inl e \<Rightarrow> Inl e
           | Inr vs \<Rightarrow> Inr (v # vs)))"

text \<open>\<open>Series.item()\<close>: the only element of the series, \<open>ValueError\<close> unless it has exactly
  one.\<close>

fun item :: "real list \<Rightarrow> error + real" where
  "item [v] = Inr v"
| "item vs = Inl ValueError"

text \<open>
  The \<open>for t_idx, trial in experiment.trials.items()\<close> loop.  In each assignment the right-hand
  side is evaluated first; \<open>x[t_idx, :] = ...\<close> and \<open>y[t_idx, 0] = ...\<close> raise \<open>IndexError\<close>
  when \<open>t_idx\<close> is not a row of the array.
\<close>

fun fill_rows ::
  "(TrialStatus \<Rightarrow> string \<Rightarrow> bool) \<Rightarrow> string list \<Rightarrow> string \<Rightarrow> DataRow list \<Rightarrow>
   (nat \<times> Trial) list \<Rightarrow> real list list \<Rightarrow> real list list \<Rightarrow>
   error + (real list list \<times> real list list)" where
  "fill_rows status_eq parameter_names metric df [] x y = Inr (x, y)"
| "fill_rows status_eq parameter_names metric df ((t_idx, trial) # rest) x y =
     (if status_eq (status trial) ''COMPLETED'' then
        (case arm trial of
           None \<Rightarrow> Inl AttributeError
         | Some trial_parameters \<Rightarrow>
             (case lookup_all trial_parameters parameter_names of
                Inl e \<Rightarrow> Inl e
              | Inr row \<Rightarrow>
                  if \<not> t_idx < length x then Inl IndexError
                  else
                    let trial_df = filter (\<lambda>r. col_trial_index r = t_idx) df in
                    (case item (map col_mean (filter (\<lambda>r. col_metric_name r = metric) trial_df)) of
                       Inl e \<Rightarrow> Inl e
                     | Inr v \<Rightarrow>
                         if \<not> t_idx < length y then Inl IndexError
                         else fill_rows status_eq parameter_names metric df rest
                                (x[t_idx := row]) (y[t_idx := [v]]))))
      else fill_rows status_eq parameter_names metric df rest x y)"

text \<open>
  \<open>update_generator_state\<close>.  The result pairs what the call did (\<open>Inl e\<close>: raised \<open>e\<close>;
  \<open>Inr ()\<close>: returned) with the node's state afterwards.
\<close>

definition update_generator_state ::
  "(TrialStatus \<Rightarrow> string \<Rightarrow> bool) \<Rightarrow> ('r \<Rightarrow> real list list \<Rightarrow> real list list \<Rightarrow> 'r) \<Rightarrow>
   'r RandomForestGenerationNode \<Rightarrow> Experiment \<Rightarrow> DataRow list \<Rightarrow>
   (error + unit) \<times> 'r RandomForestGenerationNode" where
  "update_generator_state status_eq fit self experiment df =
     (let space = search_space experiment;
          parameter_names = map fst (space_parameters space);
          metric_names = metrics (optimization_config experiment)
      in
        if list_ex (\<lambda>p. \<not> isinstance_RangeParameter p) (map snd (space_parameters space)) then
          (Inl (NotImplementedError
             ''This example only supports RangeParameters in the search space.''), self)
        else if parameter_constraints space \<noteq> [] then
          (Inl (NotImplementedError
             ''This example does not support parameter constraints.''), self)
        else if length metric_names \<noteq> 1 then
          (Inl (NotImplementedError
             ''This example only supports single-objective optimization.''), self)
        else
          let num_completed_trials = length (trials_by_status experiment COMPLETED);
              x = replicate num_completed_trials (replicate (length parameter_names) 0);
              y = replicate num_completed_trials [0]
          in
            (case fill_rows status_eq parameter_names (metric_names ! 0) df
                    (trials experiment) x y of
               Inl e \<Rightarrow> (Inl e, self)
             | Inr (x', y') \<Rightarrow>
                 (Inr (),
                  self\<lparr>regressor := fit (regressor self) x' y',
                       parameters := Some (space_parameters space),
                       minimize := Some (objective_minimize (optimization_config experiment))\<rparr>)))"

text \<open>
  \<open>np.argmin\<close> and \<open>np.argmax\<close>: the index of the first least (greatest) element;
  \<open>ValueError\<close> on an empty array.  \<open>first_min v vs\<close> is that index in \<open>v # vs\<close>.
\<close>

fun first_min :: "real \<Rightarrow> real list \<Rightarrow> nat" where
  "first_min v [] = 0"
| "first_min v (w # ws) = (let k = first_min w ws in if v \<le> (w # ws) ! k then 0 else Suc k)"

fun first_max :: "real \<Rightarrow> real list \<Rightarrow> nat" where
  "first_max v [] = 0"
| "first_max v (w # ws) = (let k = first_max w ws in if (w # ws) ! k \<le> v then 0 else Suc k)"

fun argmin :: "real list \<Rightarrow> error + nat" where
  "argmin [] = Inl ValueError"
| "argmin (v # vs) = Inr (first_min v vs)"

fun argmax :: "real list \<Rightarrow> error + nat" where
  "argmax [] = Inl ValueError"
| "argmax (v # vs) = Inr (first_max v vs)"

text \<open>
  \<open>np.random.random_sample([n, d])\<close>: an \<open>n\<close> by \<open>d\<close> array of draws from \<open>[0, 1)\<close>.  The
  generator is an argument of the model: \<open>random_sample i j\<close> is the draw at row \<open>i\<close>, column
  \<open>j\<close>.
\<close>

definition unit_samples_of :: "(nat \<Rightarrow> nat \<Rightarrow> real) \<Rightarrow> nat \<Rightarrow> nat \<Rightarrow> real list list" where
  "unit_samples_of random_sample n d = map (\<lambda>i. map (\<lambda>j. random_sample i j) [0..<d]) [0..<n]"

text \<open>\<open>bounds[:, 0] + (bounds[:, 1] - bounds[:, 0]) * unit_samples\<close>, broadcast over the rows,
  in numpy's float arithmetic.\<close>

definition scale_samples :: "(real \<times> real) list \<Rightarrow> real list list \<Rightarrow> np_float list list" where
  "scale_samples bounds unit_samples =
     map (\<lambda>u. map (\<lambda>(b, uj).
                  np_add (Finite (fst b))
                    (np_mul (np_sub (Finite (snd b)) (Finite (fst b))) (Finite uj)))
              (zip bounds u))
       unit_samples"

text \<open>
  \<open>get_next_candidate\<close>.  It raises \<open>AttributeError\<close> while \<open>self.parameters\<close> is \<open>None\<close> (or
  holds a parameter without \<open>lower\<close> and \<open>upper\<close>), \<open>ValueError\<close> for a negative
  \<open>num_samples\<close>, \<open>IndexError\<close> for an empty search space (\<open>bounds\<close> is then one-dimensional and
  \<open>bounds[:, 0]\<close> has one index too many), \<open>ValueError\<close> when there is no prediction to take
  the \<open>argmin\<close> of, and \<open>IndexError\<close> when the best index is not a row of \<open>samples\<close>.
  \<open>if self.minimize\<close> holds for \<open>True\<close> only.  The values of the candidate are numpy floats:
  \<open>best_sample[i].item()\<close> may be an infinity or NaN.
\<close>

definition get_next_candidate ::
  "('r \<Rightarrow> np_float list list \<Rightarrow> real list) \<Rightarrow> (nat \<Rightarrow> nat \<Rightarrow> real) \<Rightarrow>
   'r RandomForestGenerationNode \<Rightarrow> TParameterization list \<Rightarrow>
   error + (string \<times> np_float) list" where
  "get_next_candidate predict random_sample self pending_parameters =
     (case parameters self of
        None \<Rightarrow> Inl AttributeError
      | Some ps \<Rightarrow>
          if list_ex (\<lambda>p. \<not> isinstance_RangeParameter p) (map snd ps) then Inl AttributeError
          else
            let bounds = map (\<lambda>p. (lower p, upper p)) (map snd ps) in
            if num_samples self < 0 then Inl ValueError
            else
              let unit_samples =
                    unit_samples_of random_sample (nat (num_samples self)) (length bounds) in
              if bounds = [] then Inl IndexError
              else
                let samples = scale_samples bounds unit_samples;
                    y_pred = predict (regressor self) samples
                in
                  (case (if minimize self = Some True then argmin y_pred else argmax y_pred) of
                     Inl e \<Rightarrow> Inl e
                   | Inr best_idx \<Rightarrow>
                       if \<not> best_idx < length samples then Inl IndexError
                       else
                         let best_sample = samples ! best_idx in
                         Inr (zip (map fst ps) best_sample)))"


section \<open>The first notebook: evaluation and the optimisation loop\<close>

text \<open>\<open>str(n)\<close> for a natural number: its decimal digits.\<close>

fun str_nat :: "nat \<Rightarrow> string" where
  "str_nat n =
     (if n < 10 then [char_of (48 + n)]
      else str_nat (n div 10) @ [char_of (48 + n mod 10)])"

text \<open>
  \<open>evaluate\<close>.  \<open>parameterization.get(f"x{i+1}")\<close> is \<open>None\<close> for a missing key, so the
  argument of \<open>hartmann6\<close> is a list of optional values.  \<open>hartmann6\<close> is the library's
  synthetic function and a parameter of the model; its result is a float, so
  \<open>assert_is_instance(..., float)\<close> returns it unchanged.  The result is the dictionary
  \<open>{"hartmann6": (value, 0.0)}\<close>.
\<close>

definition evaluate ::
  "(real option list \<Rightarrow> real) \<Rightarrow> TParameterization \<Rightarrow> (string \<times> real \<times> real) list" where
  "evaluate hartmann6 parameterization =
     (let x = map (\<lambda>i. map_of parameterization (''x'' @ str_nat (i + 1))) [0..<6]
      in [(''hartmann6'', (hartmann6 x, 0))])"

text \<open>
  The calls the loop makes on \<open>ax_client\<close>, in order.  \<open>AxClient\<close> is the library's: its
  state is a type parameter \<open>'c\<close>, and its two methods are parameters of the loop,
  \<open>get_next_trial\<close> returning \<open>(parameterization, trial_index)\<close> and the new state,
  \<open>complete_trial\<close> the new state.  Both are taken to return; a call that raised would end
  the loop.
\<close>

datatype ax_call =
    Get_next_trial
  | Complete_trial nat "(string \<times> real \<times> real) list"

text \<open>One iteration: the body of \<open>for i in range(15)\<close>.  The loop variable is not used.\<close>

definition loop_body ::
  "('c \<Rightarrow> (TParameterization \<times> nat) \<times> 'c) \<Rightarrow>
   (nat \<Rightarrow> (string \<times> real \<times> real) list \<Rightarrow> 'c \<Rightarrow> 'c) \<Rightarrow>
   (real option list \<Rightarrow> real) \<Rightarrow> nat \<Rightarrow> 'c \<times> ax_call list \<Rightarrow> 'c \<times> ax_call list" where
  "loop_body get_next_trial complete_trial hartmann6 i s =
     (case s of (ax_client, calls) \<Rightarrow>
        (case get_next_trial ax_client of ((parameterization, trial_index), ax_client1) \<Rightarrow>
           let raw_data = evaluate hartmann6 parameterization;
               ax_client2 = complete_trial trial_index raw_data ax_client1
           in (ax_client2, calls @ [Get_next_trial, Complete_trial trial_index raw_data])))"

definition optimization_loop ::
  "('c \<Rightarrow> (TParameterization \<times> nat) \<times> 'c) \<Rightarrow>
   (nat \<Rightarrow> (string \<times> real \<times> real) list \<Rightarrow> 'c \<Rightarrow> 'c) \<Rightarrow>
   (real option list \<Rightarrow> real) \<Rightarrow> 'c \<Rightarrow> 'c \<times> ax_call list" where
  "optimization_loop get_next_trial complete_trial hartmann6 ax_client =
     fold (loop_body get_next_trial complete_trial hartmann6) [0..<15] (ax_client, [])"

text \<open>
  The state of the client when iteration \<open>i\<close> starts, written out iteration by iteration:
  iteration \<open>i\<close> asks for one trial and completes that trial with its evaluation.
\<close>

primrec client_before ::
  "('c \<Rightarrow> (TParameterization \<times> nat) \<times> 'c) \<Rightarrow>
   (nat \<Rightarrow> (string \<times> real \<times> real) list \<Rightarrow> 'c \<Rightarrow> 'c) \<Rightarrow>
   (real option list \<Rightarrow> real) \<Rightarrow> 'c \<Rightarrow> nat \<Rightarrow> 'c" where
  "client_before get_next_trial complete_trial hartmann6 ax_client 0 = ax_client"
| "client_before get_next_trial complete_trial hartmann6 ax_client (Suc i) =
     (let c = client_before get_next_trial complete_trial hartmann6 ax_client i in
      complete_trial (snd (fst (get_next_trial c)))
        (evaluate hartmann6 (fst (fst (get_next_trial c)))) (snd (get_next_trial c)))"

text \<open>What iteration \<open>i\<close> is expected to call, given the client's state when it starts.\<close>

definition iteration_calls ::
  "('c \<Rightarrow> (TParameterization \<times> nat) \<times> 'c) \<Rightarrow> (real option list \<Rightarrow> real) \<Rightarrow> 'c \<Rightarrow> ax_call list" where
  "iteration_calls get_next_trial hartmann6 c =
     [Get_next_trial,
      Complete_trial (snd (fst (get_next_trial c)))
        (evaluate hartmann6 (fst (fst (get_next_trial c))))]"

section \<open>The second notebook: the scheduler's configuration\<close>

text \<open>The keyword arguments the notebook passes to \<open>PercentileEarlyStoppingStrategy\<close>.\<close>

record PercentileEarlyStoppingStrategy =
  percentile_threshold :: real
  min_progression :: real
  min_curves :: nat
  trial_indices_to_ignore :: "nat list option"
  normalize_progressions :: bool

record SchedulerOptions =
  total_trials :: nat
  max_pending_trials :: nat
  early_stopping_strategy :: PercentileEarlyStoppingStrategy

text \<open>The scheduler, by its constructor arguments; the experiment and the generation
  strategy are the library's objects.\<close>

record ('e, 'g) Scheduler =
  scheduler_experiment :: 'e
  generation_strategy :: 'g
  options :: SchedulerOptions

text \<open>\<open>SMOKE_TEST = os.environ.get("SMOKE_TEST")\<close>: the variable's value, \<open>None\<close> when it is
  not in the environment.\<close>

definition SMOKE_TEST :: "(string \<rightharpoonup> string) \<Rightarrow> string option" where
  "SMOKE_TEST environ = environ ''SMOKE_TEST''"

text \<open>The truth value Python gives an optional string in \<open>if SMOKE_TEST:\<close>.\<close>

fun truthy :: "string option \<Rightarrow> bool" where
  "truthy None = False"
| "truthy (Some s) = (s \<noteq> [])"

text \<open>The notebook's variable \<open>total_trials\<close>.\<close>

definition total_trials_budget :: "(string \<rightharpoonup> string) \<Rightarrow> nat" where
  "total_trials_budget environ = (if truthy (SMOKE_TEST environ) then 6 else 15)"

definition percentile_early_stopping_strategy :: PercentileEarlyStoppingStrategy where
  "percentile_early_stopping_strategy =
     \<lparr>percentile_threshold = 70,
      min_progression = 3 / 10,
      min_curves = 5,
      trial_indices_to_ignore = None,
      normalize_progressions = True\<rparr>"

text \<open>\<open>gs = choose_generation_strategy(..., num_trials=total_trials)\<close> is the library's; it is
  the parameter \<open>choose_generation_strategy\<close> here.\<close>

definition scheduler ::
  "(nat \<Rightarrow> 'g) \<Rightarrow> (string \<rightharpoonup> string) \<Rightarrow> 'e \<Rightarrow> ('e, 'g) Scheduler" where
  "scheduler choose_generation_strategy environ experiment =
     \<lparr>scheduler_experiment = experiment,
      generation_strategy = choose_generation_strategy (total_trials_budget environ),
      options =
        \<lparr>total_trials = total_trials_budget environ,
         max_pending_trials = 5,
         early_stopping_strategy = percentile_early_stopping_strategy\<rparr>\<rparr>"

section \<open>The second notebook: the savings estimate\<close>

text \<open>
  \<open>experiment.lookup_data().map_df\<close>, the curve frame: the column \<open>trial_index\<close> and the
  other numeric columns by name, each with one entry per row.  Selecting a column the
  frame does not have raises \<open>KeyError\<close>; \<open>frame_column\<close> gives the rows
  \<open>(trial_index, value)\<close> of a column.  The savings cell selects the column \<open>"step"\<close>,
  \<open>early_stopping_exp_to_df\<close> the column \<open>"steps"\<close>.
\<close>

record MapFrame =
  frame_trial_index :: "nat list"
  frame_columns :: "(string \<times> real list) list"

definition frame_column :: "string \<Rightarrow> MapFrame \<Rightarrow> error + (nat \<times> real) list" where
  "frame_column name frame =
     (case map_of (frame_columns frame) name of
        None \<Rightarrow> Inl KeyError
      | Some values \<Rightarrow> Inr (zip (frame_trial_index frame) values))"

text \<open>
  \<open>groupby("trial_index")[...].max()\<close> on the rows \<open>(trial_index, value)\<close> of a column has one
  entry per trial index, in ascending order of the index, holding the greatest value of
  the trial's rows.
\<close>

definition group_max :: "nat \<Rightarrow> (nat \<times> real) list \<Rightarrow> real" where
  "group_max k rows =
     (case map snd (filter (\<lambda>r. fst r = k) rows) of
        [] \<Rightarrow> 0
      | v # vs \<Rightarrow> fold max vs v)"

definition groupby_max :: "(nat \<times> real) list \<Rightarrow> (nat \<times> real) list" where
  "groupby_max rows = map (\<lambda>k. (k, group_max k rows)) (sort (remdups (map fst rows)))"

text \<open>
  The cell computing \<open>savings\<close>, on the rows \<open>(trial_index, step)\<close> of the curve frame.
  \<open>trial_to_max_steps.iloc[0]\<close> raises \<open>IndexError\<close> on an
  empty series; a division by zero does not raise in numpy and gives an infinity or NaN.
\<close>

definition savings :: "(nat \<times> real) list \<Rightarrow> error + np_float" where
  "savings map_df =
     (let trial_to_max_steps = map snd (groupby_max map_df) in
      case trial_to_max_steps of
        [] \<Rightarrow> Inl IndexError
      | completed_trial_steps # rest \<Rightarrow>
          let denominator = completed_trial_steps * real (length trial_to_max_steps) in
          if denominator = 0 then Inr NonFinite
          else Inr (Finite (1 - sum_list trial_to_max_steps / denominator)))"

text \<open>The cell on the frame itself: \<open>KeyError\<close> when the frame has no column \<open>"step"\<close>.\<close>

definition savings_cell :: "MapFrame \<Rightarrow> error + np_float" where
  "savings_cell map_df =
     (case frame_column ''step'' map_df of
        Inl e \<Rightarrow> Inl e
      | Inr rows \<Rightarrow> savings rows)"

section \<open>The second notebook: relative start and completion times\<close>

text \<open>
  A row of the trials dataframe: the trial index, the merged column \<open>steps\<close>, and the four
  columns \<open>early_stopping_exp_to_df\<close> adds.  A time stamp is a number of seconds; \<open>None\<close> is
  pandas' missing time (NaT, and NaN after \<open>total_seconds\<close>).  The other columns of
  \<open>exp_to_df\<close> pass through unchanged and are left out.
\<close>

record trials_df_row =
  row_trial_index :: nat
  steps :: real
  time_started_col :: "real option"
  time_completed_col :: "real option"
  time_started_rel :: "real option"
  time_completed_rel :: "real option"

text \<open>
  The helpers \<open>time_started\<close> and \<open>time_completed\<close> look the trial up in the notebook's global
  \<open>experiment\<close>; \<open>experiment.trials[trial_index]\<close> raises \<open>KeyError\<close> for an unknown index.
\<close>

definition time_started :: "Experiment \<Rightarrow> nat \<Rightarrow> error + real option" where
  "time_started experiment row_index =
     (case map_of (trials experiment) row_index of
        None \<Rightarrow> Inl KeyError
      | Some trial \<Rightarrow> Inr (time_run_started trial))"

definition time_completed_of :: "Experiment \<Rightarrow> nat \<Rightarrow> error + real option" where
  "time_completed_of experiment row_index =
     (case map_of (trials experiment) row_index of
        None \<Rightarrow> Inl KeyError
      | Some trial \<Rightarrow> Inr (time_completed trial))"

text \<open>\<open>trials_df.apply(func, axis=1)\<close>: the function on every row, in order; the first
  exception ends it.\<close>

fun apply_rows :: "('a \<Rightarrow> error + 'b) \<Rightarrow> 'a list \<Rightarrow> error + 'b list" where
  "apply_rows f [] = Inr []"
| "apply_rows f (r # rs) =
     (case f r of
        Inl e \<Rightarrow> Inl e
      | Inr v \<Rightarrow> (case apply_rows f rs of Inl e \<Rightarrow> Inl e | Inr vs \<Rightarrow> Inr (v # vs)))"

text \<open>\<open>Series.min()\<close> of a column of time stamps: missing values are skipped; the result is
  missing when there is no value.\<close>

fun series_min :: "real option list \<Rightarrow> real option" where
  "series_min [] = None"
| "series_min (None # vs) = series_min vs"
| "series_min (Some v # vs) = (case series_min vs of None \<Rightarrow> Some v | Some m \<Rightarrow> Some (min v m))"

text \<open>\<open>(column - start_time).dt.total_seconds()\<close> for one entry.\<close>

fun seconds_since :: "real option \<Rightarrow> real option \<Rightarrow> real option" where
  "seconds_since (Some start_time) (Some t) = Some (t - start_time)"
| "seconds_since start_time t = None"

text \<open>\<open>trials_df.merge(training_row_df, on="trial_index")\<close>: the inner join, in the order of
  the left frame.\<close>

definition merge_on_trial_index :: "nat list \<Rightarrow> (nat \<times> real) list \<Rightarrow> (nat \<times> real) list" where
  "merge_on_trial_index trials_df training_row_df =
     concat (map (\<lambda>i. map (\<lambda>r. (i, snd r)) (filter (\<lambda>r. fst r = i) training_row_df)) trials_df)"

text \<open>
  \<open>early_stopping_exp_to_df\<close>.  \<open>exp_to_df\<close> and \<open>lookup_data().map_df\<close> are the library's and
  parameters here: the first gives the trial index of each row of its frame, the second
  the curve frame.  \<open>experiment_global\<close> is the notebook's global variable the two helpers
  read, \<open>experiment\<close> the function's argument.  The function raises \<open>KeyError\<close> when the
  curve frame has no column \<open>"steps"\<close> or a row's trial is not in the global experiment,
  \<open>ValueError\<close> when the merged frame has no row (\<open>apply\<close> then gives a frame, which
  cannot be assigned to one column), and \<open>AttributeError\<close> when no row has a start time,
  or none a completion time (the difference is then not a column of durations and has
  no \<open>.dt\<close>).  The result is the trials frame with the curve frame as it was read.
\<close>

definition early_stopping_exp_to_df ::
  "(Experiment \<Rightarrow> nat list) \<Rightarrow> (Experiment \<Rightarrow> MapFrame) \<Rightarrow> Experiment \<Rightarrow> Experiment \<Rightarrow>
   error + (trials_df_row list \<times> MapFrame)" where
  "early_stopping_exp_to_df exp_to_df lookup_map_df experiment_global experiment =
     (let trials_df = exp_to_df experiment;
          curve_df = lookup_map_df experiment
      in
        case frame_column ''steps'' curve_df of
          Inl e \<Rightarrow> Inl e
        | Inr curve_rows \<Rightarrow>
            let training_row_df = groupby_max curve_rows;
                merged = merge_on_trial_index trials_df training_row_df
            in
              if merged = [] then Inl ValueError
              else
                (case apply_rows (\<lambda>r. time_started experiment_global (fst r)) merged of
                   Inl e \<Rightarrow> Inl e
                 | Inr started \<Rightarrow>
                     (case apply_rows (\<lambda>r. time_completed_of experiment_global (fst r))
                             merged of
                        Inl e \<Rightarrow> Inl e
                      | Inr completed \<Rightarrow>
                          let start_time = series_min started in
                          if list_all (\<lambda>v. v = None) started then Inl AttributeError
                          else if list_all (\<lambda>v. v = None) completed then Inl AttributeError
                          else
                            Inr (map (\<lambda>(r, s, c).
                                   \<lparr>row_trial_index = fst r,
                                    steps = snd r,
                                    time_started_col = s,
                                    time_completed_col = c,
                                    time_started_rel = seconds_since start_time s,
                                    time_completed_rel = seconds_since start_time c\<rparr>)
                                 (zip merged (zip started completed)),
                                 curve_df))))"

text \<open>
  The minimum start time over the trials of a trials frame, and over all trials of an
  experiment, as the property of the relative times speaks of them.
\<close>

definition earliest_start :: "trials_df_row list \<Rightarrow> real" where
  "earliest_start trials_df = Min ((the \<circ> time_started_col) ` set trials_df)"

definition earliest_start_of_experiment :: "Experiment \<Rightarrow> real" where
  "earliest_start_of_experiment experiment =
     Min ((the \<circ> time_run_started \<circ> snd) ` set (trials experiment))"

section \<open>Concrete inputs\<close>

text \<open>
  A regressor that only remembers the arrays it was last fitted on, and predicts the sum of
  a point's finite coordinates: enough to see what \<open>fit\<close> was called with.
\<close>

definition remember_fit ::
  "real list list \<times> real list list \<Rightarrow> real list list \<Rightarrow> real list list \<Rightarrow>
   real list list \<times> real list list" where
  "remember_fit r x y = (x, y)"



text \<open>The node as \<open>RandomForestGenerationNode(num_samples=3, regressor_options={})\<close> leaves
  it.\<close>

definition fresh_node :: "(real list list \<times> real list list) RandomForestGenerationNode" where
  "fresh_node =
     \<lparr>num_samples = 3, regressor = ([], []), parameters = None, minimize = None,
      fit_time_since_gen = 0\<rparr>"

definition one_range_space :: SearchSpace where
  "one_range_space =
     \<lparr>space_parameters = [(''x'', RangeParameter 0 1)], parameter_constraints = []\<rparr>"

definition trial_with :: "TrialStatus \<Rightarrow> real \<Rightarrow> Trial" where
  "trial_with s v =
     \<lparr>status = s, arm = Some [(''x'', v)], time_run_started = None, time_completed = None\<rparr>"

text \<open>Two completed trials, indices 0 and 1, with one observation of the metric each.\<close>

definition experiment_two_completed :: Experiment where
  "experiment_two_completed =
     \<lparr>search_space = one_range_space,
      optimization_config = \<lparr>metrics = [''m''], objective_minimize = True\<rparr>,
      trials = [(0, trial_with COMPLETED (1 / 4)), (1, trial_with COMPLETED (1 / 2))]\<rparr>"

definition data_two_completed :: "DataRow list" where
  "data_two_completed =
     [\<lparr>col_trial_index = 0, col_metric_name = ''m'', col_mean = 3\<rparr>,
      \<lparr>col_trial_index = 1, col_metric_name = ''m'', col_mean = 7\<rparr>]"

text \<open>Trial 0 failed, trial 1 completed: the only completed trial has index 1.\<close>

definition experiment_failed_then_completed :: Experiment where
  "experiment_failed_then_completed =
     \<lparr>search_space = one_range_space,
      optimization_config = \<lparr>metrics = [''m''], objective_minimize = True\<rparr>,
      trials = [(0, trial_with FAILED (1 / 4)), (1, trial_with COMPLETED (1 / 2))]\<rparr>"

definition data_failed_then_completed :: "DataRow list" where
  "data_failed_then_completed =
     [\<lparr>col_trial_index = 1, col_metric_name = ''m'', col_mean = 7\<rparr>]"

text \<open>A search space with a choice parameter.\<close>

definition experiment_with_choice :: Experiment where
  "experiment_with_choice =
     \<lparr>search_space =
        \<lparr>space_parameters = [(''x'', RangeParameter 0 1), (''c'', ChoiceParameter [1, 2])],
         parameter_constraints = []\<rparr>,
      optimization_config = \<lparr>metrics = [''m''], objective_minimize = True\<rparr>,
      trials = []\<rparr>"


text \<open>The node after \<open>update_generator_state\<close> on the two completed trials.\<close>

definition fitted_node :: "(real list list \<times> real list list) RandomForestGenerationNode" where
  "fitted_node =
     \<lparr>num_samples = 3, regressor = ([[1 / 4], [1 / 2]], [[3], [7]]),
      parameters = Some [(''x'', RangeParameter 0 1)], minimize = Some True,
      fit_time_since_gen = 0\<rparr>"

text \<open>An environment in which \<open>SMOKE_TEST\<close> is set, to the empty string.\<close>

definition environ_empty_smoke_test :: "string \<rightharpoonup> string" where
  "environ_empty_smoke_test = [''SMOKE_TEST'' \<mapsto> '''']"



text \<open>Two timed trials: trial 0 ran from second 100 to 160, trial 1 from 105 to 130 (stopped
  early); the curve frame has two rows for trial 0 and one for trial 1.\<close>

definition timed_trial :: "TrialStatus \<Rightarrow> real \<Rightarrow> real \<Rightarrow> Trial" where
  "timed_trial s started completed =
     \<lparr>status = s, arm = None, time_run_started = Some started,
      time_completed = Some completed\<rparr>"

definition experiment_timed :: Experiment where
  "experiment_timed =
     \<lparr>search_space = one_range_space,
      optimization_config = \<lparr>metrics = [''val_acc''], objective_minimize = False\<rparr>,
      trials = [(0, timed_trial COMPLETED 100 160), (1, timed_trial EARLY_STOPPED 105 130)]\<rparr>"

definition exp_to_df_indices :: "Experiment \<Rightarrow> nat list" where
  "exp_to_df_indices experiment = map fst (trials experiment)"

definition curve_frame_timed :: "Experiment \<Rightarrow> MapFrame" where
  "curve_frame_timed experiment =
     \<lparr>frame_trial_index = [0, 0, 1], frame_columns = [(''steps'', [1, 2, 1])]\<rparr>"

definition trials_df_timed :: "trials_df_row list" where
  "trials_df_timed =
     [\<lparr>row_trial_index = 0, steps = 2, time_started_col = Some 100,
       time_completed_col = Some 160, time_started_rel = Some 0,
       time_completed_rel = Some 60\<rparr>,
      \<lparr>row_trial_index = 1, steps = 1, time_started_col = Some 105,
       time_completed_col = Some 130, time_started_rel = Some 5,
       time_completed_rel = Some 30\<rparr>]"

text \<open>Trial 0 started at second 100 and trial 1 at second 110; only trial 1 has rows in the
  curve frame.\<close>

definition experiment_late_curve :: Experiment where
  "experiment_late_curve =
     \<lparr>search_space = one_range_space,
      optimization_config = \<lparr>metrics = [''val_acc''], objective_minimize = False\<rparr>,
      trials = [(0, timed_trial COMPLETED 100 160), (1, timed_trial COMPLETED 110 130)]\<rparr>"

definition curve_frame_second_only :: "Experiment \<Rightarrow> MapFrame" where
  "curve_frame_second_only experiment =
     \<lparr>frame_trial_index = [1], frame_columns = [(''steps'', [1])]\<rparr>"






section \<open>Auxiliary facts\<close>







lemma lookup_all_not_NotImplemented: "lookup_all tp pn \<noteq> Inl (NotImplementedError msg)"
  by (induction pn) (auto split: option.splits sum.splits)

lemma item_not_NotImplemented: "item vs \<noteq> Inl (NotImplementedError msg)"
  by (cases vs rule: item.cases) auto

lemma fill_rows_not_NotImplemented:
  "fill_rows status_eq pn m df ts x y \<noteq> Inl (NotImplementedError msg)"
proof (induction ts arbitrary: x y)
  case Nil
  show ?case by simp
next
  case (Cons t ts)
  obtain i tr where t: "t = (i, tr)" by (cases t)
  show ?case
    using Cons.IH lookup_all_not_NotImplemented item_not_NotImplemented unfolding t
    by (auto simp: Let_def split: option.splits sum.splits if_splits)
qed













text \<open>The two runs of \<open>update_generator_state\<close> the examples below start from.\<close>

lemma update_two_completed:
  "update_generator_state str_enum_eq remember_fit fresh_node experiment_two_completed
     data_two_completed
   = (Inr (), fitted_node)"
  by (simp add: update_generator_state_def fitted_node_def experiment_two_completed_def data_two_completed_def
      one_range_space_def trial_with_def fresh_node_def remember_fit_def trials_by_status_def
      str_enum_eq_def Let_def)










section \<open>update_generator_state: errors and frame\<close>

text \<open>
  Claim C8.  \<open>update_generator_state\<close> raises \<open>NotImplementedError\<close> exactly when the search
  space holds a parameter that is not a \<open>RangeParameter\<close>, or has parameter constraints, or
  the optimization config does not have exactly one metric.  Whenever the call raises
  (\<open>NotImplementedError\<close> or any other exception), the node is as it was before the call:
  regressor, parameters, minimize, num_samples and fit_time_since_gen are all unchanged.
\<close>

theorem update_generator_state_NotImplementedError_iff:
  "((\<exists>msg. fst (update_generator_state status_eq fit self experiment df)
             = Inl (NotImplementedError msg))
      \<longleftrightarrow>
        ((\<exists>p \<in> set (map snd (space_parameters (search_space experiment))).
            \<not> isinstance_RangeParameter p)
         \<or> parameter_constraints (search_space experiment) \<noteq> []
         \<or> length (metrics (optimization_config experiment)) \<noteq> 1))
   \<and> (\<forall>e. fst (update_generator_state status_eq fit self experiment df) = Inl e
          \<longrightarrow> snd (update_generator_state status_eq fit self experiment df) = self)"
proof (intro conjI allI impI)
  show "(\<exists>msg. fst (update_generator_state status_eq fit self experiment df)
             = Inl (NotImplementedError msg))
      \<longleftrightarrow>
        ((\<exists>p \<in> set (map snd (space_parameters (search_space experiment))).
            \<not> isinstance_RangeParameter p)
         \<or> parameter_constraints (search_space experiment) \<noteq> []
         \<or> length (metrics (optimization_config experiment)) \<noteq> 1)"
    using fill_rows_not_NotImplemented
    by (auto simp: update_generator_state_def Let_def list_ex_iff split: sum.splits prod.splits)
next
  fix e
  assume "fst (update_generator_state status_eq fit self experiment df) = Inl e"
  then show "snd (update_generator_state status_eq fit self experiment df) = self"
    by (auto simp: update_generator_state_def Let_def split: if_splits sum.splits prod.splits)
qed

theorem update_generator_state_NotImplementedError_iff_witness:
  "fst (update_generator_state str_enum_eq remember_fit fresh_node experiment_with_choice [])
     = Inl (NotImplementedError
         ''This example only supports RangeParameters in the search space.'')
   \<and> snd (update_generator_state str_enum_eq remember_fit fresh_node experiment_with_choice [])
     = fresh_node
   \<and> (\<exists>msg. fst (update_generator_state str_enum_eq remember_fit fresh_node
                  experiment_with_choice [])
               = Inl (NotImplementedError msg))"
proof -
  have bad: "\<exists>p \<in> set (map snd (space_parameters (search_space experiment_with_choice))).
      \<not> isinstance_RangeParameter p"
    by (simp add: experiment_with_choice_def)
  have raised: "fst (update_generator_state str_enum_eq remember_fit fresh_node
      experiment_with_choice []) = Inl (NotImplementedError
         ''This example only supports RangeParameters in the search space.'')"
    by (simp add: update_generator_state_def experiment_with_choice_def Let_def)
  note inst = update_generator_state_NotImplementedError_iff
    [of str_enum_eq remember_fit fresh_node experiment_with_choice "[]"]
  from inst bad have ex: "\<exists>msg. fst (update_generator_state str_enum_eq remember_fit fresh_node
      experiment_with_choice []) = Inl (NotImplementedError msg)"
    by blast
  from inst raised have same: "snd (update_generator_state str_enum_eq remember_fit fresh_node
      experiment_with_choice []) = fresh_node"
    by blast
  from raised same ex show ?thesis by blast
qed

text \<open>
  Claim C10.  When \<open>update_generator_state\<close> returns normally, \<open>num_samples\<close> and
  \<open>fit_time_since_gen\<close> are what they were: the node after the call is the node before it
  with the regressor replaced by the fitted one, \<open>parameters\<close> set to the search space's
  parameters and \<open>minimize\<close> to the objective's flag.
\<close>

theorem update_generator_state_frame:
  assumes "update_generator_state status_eq fit self experiment df = (Inr (), self')"
  shows "num_samples self' = num_samples self
       \<and> fit_time_since_gen self' = fit_time_since_gen self
       \<and> (\<exists>x y. self' = self
             \<lparr>regressor := fit (regressor self) x y,
              parameters := Some (space_parameters (search_space experiment)),
              minimize := Some (objective_minimize (optimization_config experiment))\<rparr>)"
proof -
  from assms obtain x y where eq: "self' = self
      \<lparr>regressor := fit (regressor self) x y,
       parameters := Some (space_parameters (search_space experiment)),
       minimize := Some (objective_minimize (optimization_config experiment))\<rparr>"
    by (auto simp: update_generator_state_def Let_def split: if_splits sum.splits prod.splits)
  have "num_samples self' = num_samples self" "fit_time_since_gen self' = fit_time_since_gen self"
    unfolding eq by simp_all
  then show ?thesis using eq by blast
qed

theorem update_generator_state_frame_witness:
  "update_generator_state str_enum_eq remember_fit fresh_node experiment_two_completed
     data_two_completed = (Inr (), fitted_node)
   \<and> num_samples fitted_node = num_samples fresh_node
   \<and> fit_time_since_gen fitted_node = fit_time_since_gen fresh_node"
  using update_generator_state_frame [OF update_two_completed] update_two_completed
  by blast

section \<open>get_next_candidate\<close>







text \<open>
  Claim C9.  The result of \<open>get_next_candidate\<close> does not depend on \<open>pending_parameters\<close>:
  on the same node, with the same regressor and the same random draws, any two lists of
  pending parameterizations give the same result (the same candidate, or the same
  exception).  Pending candidates are not used to avoid duplicates.
\<close>

theorem get_next_candidate_ignores_pending:
  "get_next_candidate predict random_sample self pending_parameters
   = get_next_candidate predict random_sample self pending_parameters'"
  by (simp add: get_next_candidate_def)

section \<open>update_generator_state: the arrays the regressor is fitted on\<close>

text \<open>
  Claim C1 says that, for every experiment the three checks accept, the regressor is
  fitted on one row per completed trial, holding that trial's parameter values and its
  mean of the objective metric.  The code allocates one row per completed trial but
  writes the row at the trial's index, and it recognises a completed trial by comparing
  the status with the string \<open>"COMPLETED"\<close>.  With trial 0 failed and trial 1 completed
  (parameter value \<open>1/2\<close>, mean \<open>7\<close>) the claim asks for \<open>fit([[1/2]], [[7]])\<close>.  Instead:
  where a status equals its name, the write to row 1 of a one-row array raises
  \<open>IndexError\<close> and nothing is fitted; where a status never equals a string, no row is
  written and the regressor is fitted on zeros.
\<close>

theorem update_generator_state_misses_completed_trial:
  "update_generator_state str_enum_eq remember_fit fresh_node
      experiment_failed_then_completed data_failed_then_completed
     = (Inl IndexError, fresh_node)
   \<and> update_generator_state int_enum_eq remember_fit fresh_node
      experiment_failed_then_completed data_failed_then_completed
     = (Inr (),
        \<lparr>num_samples = 3, regressor = ([[0]], [[0]]),
         parameters = Some [(''x'', RangeParameter 0 1)], minimize = Some True,
         fit_time_since_gen = 0\<rparr>)"
proof
  show "update_generator_state str_enum_eq remember_fit fresh_node
      experiment_failed_then_completed data_failed_then_completed
     = (Inl IndexError, fresh_node)"
    by (simp add: update_generator_state_def experiment_failed_then_completed_def
        data_failed_then_completed_def one_range_space_def trial_with_def
        trials_by_status_def str_enum_eq_def Let_def)
  show "update_generator_state int_enum_eq remember_fit fresh_node
      experiment_failed_then_completed data_failed_then_completed
     = (Inr (),
        \<lparr>num_samples = 3, regressor = ([[0]], [[0]]),
         parameters = Some [(''x'', RangeParameter 0 1)], minimize = Some True,
         fit_time_since_gen = 0\<rparr>)"
    by (simp add: update_generator_state_def experiment_failed_then_completed_def
        data_failed_then_completed_def one_range_space_def trial_with_def fresh_node_def
        trials_by_status_def int_enum_eq_def remember_fit_def Let_def)
qed

text \<open>
  What the loop does achieve.  Let a status equal its name, let the trial indices be
  distinct, and let every completed trial have an index below the number of completed
  trials (the completed trials are then trials \<open>0, ..., n - 1\<close>), an arm with a value for
  every parameter and exactly one row of the metric in the data.  Then the regressor is
  fitted on arrays whose row \<open>i\<close> holds the parameter values and the mean of completed
  trial \<open>i\<close>, as the claim describes.
\<close>

lemma str_enum_eq_COMPLETED: "str_enum_eq s ''COMPLETED'' \<longleftrightarrow> s = COMPLETED"
  by (cases s) (simp_all add: str_enum_eq_def)

lemma fill_rows_str_enum:
  assumes "distinct (map fst ts)"
    and "length y = length x"
    and "\<forall>(i, t) \<in> set ts. status t = COMPLETED \<longrightarrow>
           i < length x
         \<and> (\<exists>ps row v. arm t = Some ps \<and> lookup_all ps pn = Inr row
              \<and> item (map col_mean (filter (\<lambda>r. col_metric_name r = m)
                    (filter (\<lambda>r. col_trial_index r = i) df))) = Inr v)"
  shows "\<exists>x' y'. fill_rows str_enum_eq pn m df ts x y = Inr (x', y')
      \<and> length x' = length x \<and> length y' = length x
      \<and> (\<forall>(i, t) \<in> set ts. status t = COMPLETED \<longrightarrow>
            (\<exists>ps. arm t = Some ps \<and> lookup_all ps pn = Inr (x' ! i))
          \<and> (\<exists>v. item (map col_mean (filter (\<lambda>r. col_metric_name r = m)
                    (filter (\<lambda>r. col_trial_index r = i) df))) = Inr v \<and> y' ! i = [v]))
      \<and> (\<forall>j. j \<notin> fst ` set ts \<longrightarrow> x' ! j = x ! j \<and> y' ! j = y ! j)"
  using assms
proof (induction ts arbitrary: x y)
  case Nil
  then show ?case by simp
next
  case (Cons a ts)
  obtain i t where a: "a = (i, t)" by (cases a)
  from Cons.prems(1) a have d: "distinct (map fst ts)" and fresh: "i \<notin> fst ` set ts" by auto
  from Cons.prems(3) have rest: "\<forall>(k, t') \<in> set ts. status t' = COMPLETED \<longrightarrow>
           k < length x
         \<and> (\<exists>ps row v. arm t' = Some ps \<and> lookup_all ps pn = Inr row
              \<and> item (map col_mean (filter (\<lambda>r. col_metric_name r = m)
                    (filter (\<lambda>r. col_trial_index r = k) df))) = Inr v)"
    by auto
  show ?case
  proof (cases "status t = COMPLETED")
    case False
    from Cons.IH [OF d Cons.prems(2) rest] obtain x' y' where
        r: "fill_rows str_enum_eq pn m df ts x y = Inr (x', y')"
      and l: "length x' = length x" "length y' = length x"
      and c: "\<forall>(k, t') \<in> set ts. status t' = COMPLETED \<longrightarrow>
            (\<exists>ps. arm t' = Some ps \<and> lookup_all ps pn = Inr (x' ! k))
          \<and> (\<exists>v. item (map col_mean (filter (\<lambda>r. col_metric_name r = m)
                    (filter (\<lambda>r. col_trial_index r = k) df))) = Inr v \<and> y' ! k = [v])"
      and u: "\<forall>j. j \<notin> fst ` set ts \<longrightarrow> x' ! j = x ! j \<and> y' ! j = y ! j"
      by blast
    have "fill_rows str_enum_eq pn m df (a # ts) x y = Inr (x', y')"
      using r False by (simp add: a str_enum_eq_COMPLETED)
    moreover have "\<forall>(k, t') \<in> set (a # ts). status t' = COMPLETED \<longrightarrow>
            (\<exists>ps. arm t' = Some ps \<and> lookup_all ps pn = Inr (x' ! k))
          \<and> (\<exists>v. item (map col_mean (filter (\<lambda>r. col_metric_name r = m)
                    (filter (\<lambda>r. col_trial_index r = k) df))) = Inr v \<and> y' ! k = [v])"
      using c False by (simp add: a)
    moreover have "\<forall>j. j \<notin> fst ` set (a # ts) \<longrightarrow> x' ! j = x ! j \<and> y' ! j = y ! j"
      using u by (simp add: a)
    ultimately show ?thesis using l by blast
  next
    case True
    from Cons.prems(3) True a obtain ps row v where i: "i < length x"
      and ps: "arm t = Some ps" and row: "lookup_all ps pn = Inr row"
      and v: "item (map col_mean (filter (\<lambda>r. col_metric_name r = m)
                    (filter (\<lambda>r. col_trial_index r = i) df))) = Inr v"
      by auto
    let ?x = "x[i := row]" and ?y = "y[i := [v]]"
    have len: "length ?y = length ?x" using Cons.prems(2) by simp
    have rest': "\<forall>(k, t') \<in> set ts. status t' = COMPLETED \<longrightarrow>
           k < length ?x
         \<and> (\<exists>ps row v. arm t' = Some ps \<and> lookup_all ps pn = Inr row
              \<and> item (map col_mean (filter (\<lambda>r. col_metric_name r = m)
                    (filter (\<lambda>r. col_trial_index r = k) df))) = Inr v)"
      using rest by simp
    from Cons.IH [OF d len rest'] obtain x' y' where
        r: "fill_rows str_enum_eq pn m df ts ?x ?y = Inr (x', y')"
      and l: "length x' = length ?x" "length y' = length ?x"
      and c: "\<forall>(k, t') \<in> set ts. status t' = COMPLETED \<longrightarrow>
            (\<exists>ps. arm t' = Some ps \<and> lookup_all ps pn = Inr (x' ! k))
          \<and> (\<exists>v. item (map col_mean (filter (\<lambda>r. col_metric_name r = m)
                    (filter (\<lambda>r. col_trial_index r = k) df))) = Inr v \<and> y' ! k = [v])"
      and u: "\<forall>j. j \<notin> fst ` set ts \<longrightarrow> x' ! j = ?x ! j \<and> y' ! j = ?y ! j"
      by blast
    have run: "fill_rows str_enum_eq pn m df (a # ts) x y = Inr (x', y')"
      using r True ps row v i Cons.prems(2)
      by (simp add: a str_enum_eq_COMPLETED Let_def)
    from u fresh have "x' ! i = ?x ! i" "y' ! i = ?y ! i" by simp_all
    then have here: "x' ! i = row" "y' ! i = [v]" using i Cons.prems(2) by simp_all
    have all: "\<forall>(k, t') \<in> set (a # ts). status t' = COMPLETED \<longrightarrow>
            (\<exists>ps. arm t' = Some ps \<and> lookup_all ps pn = Inr (x' ! k))
          \<and> (\<exists>v. item (map col_mean (filter (\<lambda>r. col_metric_name r = m)
                    (filter (\<lambda>r. col_trial_index r = k) df))) = Inr v \<and> y' ! k = [v])"
      using c here ps row v by (simp add: a)
    have unchanged: "\<forall>j. j \<notin> fst ` set (a # ts) \<longrightarrow> x' ! j = x ! j \<and> y' ! j = y ! j"
      using u by (simp add: a)
    from run l all unchanged show ?thesis by simp
  qed
qed


lemma update_generator_state_fits_completed:
  assumes ranges: "\<not> list_ex (\<lambda>p. \<not> isinstance_RangeParameter p)
                      (map snd (space_parameters (search_space experiment)))"
    and unconstrained: "parameter_constraints (search_space experiment) = []"
    and one_metric: "metrics (optimization_config experiment) = [metric]"
    and indices: "distinct (map fst (trials experiment))"
    and completed: "\<forall>(i, t) \<in> set (trials experiment). status t = COMPLETED \<longrightarrow>
           i < length (trials_by_status experiment COMPLETED)
         \<and> (\<exists>ps row v. arm t = Some ps
              \<and> lookup_all ps (map fst (space_parameters (search_space experiment))) = Inr row
              \<and> item (map col_mean (filter (\<lambda>r. col_metric_name r = metric)
                    (filter (\<lambda>r. col_trial_index r = i) df))) = Inr v)"
  shows "\<exists>x y. update_generator_state str_enum_eq fit self experiment df
        = (Inr (),
           self\<lparr>regressor := fit (regressor self) x y,
                parameters := Some (space_parameters (search_space experiment)),
                minimize := Some (objective_minimize (optimization_config experiment))\<rparr>)
      \<and> length x = length (trials_by_status experiment COMPLETED)
      \<and> length y = length (trials_by_status experiment COMPLETED)
      \<and> (\<forall>(i, t) \<in> set (trials experiment). status t = COMPLETED \<longrightarrow>
            (\<exists>ps. arm t = Some ps
               \<and> lookup_all ps (map fst (space_parameters (search_space experiment)))
                   = Inr (x ! i))
          \<and> (\<exists>v. item (map col_mean (filter (\<lambda>r. col_metric_name r = metric)
                    (filter (\<lambda>r. col_trial_index r = i) df))) = Inr v \<and> y ! i = [v]))"
proof -
  let ?n = "length (trials_by_status experiment COMPLETED)"
  let ?names = "map fst (space_parameters (search_space experiment))"
  let ?x0 = "replicate ?n (replicate (length ?names) (0 :: real))"
  let ?y0 = "replicate ?n [0 :: real]"
  have len: "length ?y0 = length ?x0" by simp
  have pre: "\<forall>(i, t) \<in> set (trials experiment). status t = COMPLETED \<longrightarrow>
           i < length ?x0
         \<and> (\<exists>ps row v. arm t = Some ps \<and> lookup_all ps ?names = Inr row
              \<and> item (map col_mean (filter (\<lambda>r. col_metric_name r = metric)
                    (filter (\<lambda>r. col_trial_index r = i) df))) = Inr v)"
    using completed by simp
  from fill_rows_str_enum [OF indices len pre] obtain x y where
      run: "fill_rows str_enum_eq ?names metric df (trials experiment) ?x0 ?y0 = Inr (x, y)"
    and lx: "length x = length ?x0" and ly: "length y = length ?x0"
    and rows: "\<forall>(i, t) \<in> set (trials experiment). status t = COMPLETED \<longrightarrow>
            (\<exists>ps. arm t = Some ps \<and> lookup_all ps ?names = Inr (x ! i))
          \<and> (\<exists>v. item (map col_mean (filter (\<lambda>r. col_metric_name r = metric)
                    (filter (\<lambda>r. col_trial_index r = i) df))) = Inr v \<and> y ! i = [v])"
    by blast
  have "update_generator_state str_enum_eq fit self experiment df
        = (Inr (),
           self\<lparr>regressor := fit (regressor self) x y,
                parameters := Some (space_parameters (search_space experiment)),
                minimize := Some (objective_minimize (optimization_config experiment))\<rparr>)"
    using ranges unconstrained one_metric run
    by (simp add: update_generator_state_def Let_def)
  moreover have "length x = ?n" "length y = ?n" using lx ly by simp_all
  ultimately show ?thesis using rows by blast
qed

text \<open>
  With a status that never equals a string the loop changes nothing, whatever the trials
  are, and the regressor is fitted on zeros.
\<close>

lemma fill_rows_int_enum:
  "fill_rows int_enum_eq parameter_names metric df ts x y = Inr (x, y)"
proof (induction ts)
  case Nil
  show ?case by simp
next
  case (Cons t ts)
  obtain i tr where "t = (i, tr)" by (cases t)
  then show ?case using Cons.IH by (simp add: int_enum_eq_def)
qed

lemma update_generator_state_int_enum:
  assumes "fst (update_generator_state int_enum_eq fit self experiment df) = Inr ()"
  shows "regressor (snd (update_generator_state int_enum_eq fit self experiment df))
    = fit (regressor self)
        (replicate (length (trials_by_status experiment COMPLETED))
           (replicate (length (space_parameters (search_space experiment))) 0))
        (replicate (length (trials_by_status experiment COMPLETED)) [0])"
  using assms
  by (auto simp: update_generator_state_def Let_def fill_rows_int_enum split: if_splits)

section \<open>The optimisation loop\<close>

lemma loop_body_eq:
  "loop_body g c h i (a, calls) =
     (c (snd (fst (g a))) (evaluate h (fst (fst (g a)))) (snd (g a)),
      calls @ iteration_calls g h a)"
  by (simp add: loop_body_def iteration_calls_def Let_def split: prod.splits)

lemma fold_loop_body:
  "fold (loop_body g c h) [0..<n] (a, []) =
     (client_before g c h a n,
      concat (map (\<lambda>i. iteration_calls g h (client_before g c h a i)) [0..<n]))"
proof (induction n)
  case 0
  show ?case by simp
next
  case (Suc n)
  show ?case
    by (simp add: Suc.IH loop_body_eq Let_def)
qed

lemma length_concat_pairs: "length (concat (map (\<lambda>i. [f i, g i]) xs)) = 2 * length xs"
  by (induction xs) simp_all

lemma parameter_names_x1_x6:
  "map (\<lambda>i. str_nat (i + 1)) [0..<6] = [''1'', ''2'', ''3'', ''4'', ''5'', ''6'']"
  by code_simp

lemma evaluate_eq:
  "evaluate h p = [(''hartmann6'',
      (h [map_of p ''x1'', map_of p ''x2'', map_of p ''x3'', map_of p ''x4'', map_of p ''x5'',
          map_of p ''x6''], 0))]"
proof -
  have "map (\<lambda>i. map_of p (''x'' @ str_nat (i + 1))) [0..<6]
      = map (\<lambda>s. map_of p (''x'' @ s)) (map (\<lambda>i. str_nat (i + 1)) [0..<6])"
    by (simp only: map_map comp_def)
  also have "\<dots> = [map_of p ''x1'', map_of p ''x2'', map_of p ''x3'', map_of p ''x4'',
      map_of p ''x5'', map_of p ''x6'']"
    by (simp only: parameter_names_x1_x6) simp
  finally show ?thesis
    unfolding evaluate_def Let_def by (simp only:)
qed

text \<open>
  Claim C4.  The loop makes exactly 15 iterations: the calls on \<open>ax_client\<close> are, for
  \<open>i = 0, ..., 14\<close> in turn, one \<open>get_next_trial\<close> followed by one \<open>complete_trial\<close>, 30
  calls in all.  The \<open>complete_trial\<close> of iteration \<open>i\<close> is given the trial index that
  iteration's \<open>get_next_trial\<close> returned and, as \<open>raw_data\<close>, \<open>evaluate\<close> of the
  parameterization it returned; \<open>evaluate\<close> pairs \<open>hartmann6\<close> of the values of \<open>x1\<close> to
  \<open>x6\<close> with the standard error 0.
\<close>

theorem optimization_loop_calls:
  "snd (optimization_loop get_next_trial complete_trial hartmann6 ax_client)
     = concat (map
         (\<lambda>i. [Get_next_trial,
                Complete_trial
                  (snd (fst (get_next_trial
                     (client_before get_next_trial complete_trial hartmann6 ax_client i))))
                  (evaluate hartmann6
                     (fst (fst (get_next_trial
                        (client_before get_next_trial complete_trial hartmann6 ax_client i)))))])
         [0..<15])
   \<and> length (snd (optimization_loop get_next_trial complete_trial hartmann6 ax_client)) = 2 * 15
   \<and> fst (optimization_loop get_next_trial complete_trial hartmann6 ax_client)
     = client_before get_next_trial complete_trial hartmann6 ax_client 15
   \<and> evaluate hartmann6 parameterization
     = [(''hartmann6'',
         (hartmann6 [map_of parameterization ''x1'', map_of parameterization ''x2'',
                     map_of parameterization ''x3'', map_of parameterization ''x4'',
                     map_of parameterization ''x5'', map_of parameterization ''x6''], 0))]"
proof -
  have run: "optimization_loop get_next_trial complete_trial hartmann6 ax_client =
     (client_before get_next_trial complete_trial hartmann6 ax_client 15,
      concat (map (\<lambda>i. iteration_calls get_next_trial hartmann6
                (client_before get_next_trial complete_trial hartmann6 ax_client i)) [0..<15]))"
    unfolding optimization_loop_def by (rule fold_loop_body)
  have calls: "snd (optimization_loop get_next_trial complete_trial hartmann6 ax_client)
     = concat (map
         (\<lambda>i. [Get_next_trial,
                Complete_trial
                  (snd (fst (get_next_trial
                     (client_before get_next_trial complete_trial hartmann6 ax_client i))))
                  (evaluate hartmann6
                     (fst (fst (get_next_trial
                        (client_before get_next_trial complete_trial hartmann6 ax_client i)))))])
         [0..<15])"
    unfolding run iteration_calls_def by simp
  have len: "length (snd (optimization_loop get_next_trial complete_trial hartmann6 ax_client))
      = 2 * 15"
    unfolding calls length_concat_pairs by simp
  have final: "fst (optimization_loop get_next_trial complete_trial hartmann6 ax_client)
     = client_before get_next_trial complete_trial hartmann6 ax_client 15"
    unfolding run by simp
  show ?thesis
    by (intro conjI calls len final evaluate_eq)
qed

section \<open>The scheduler's configuration\<close>

text \<open>
  Claim C5 reads: the early-stopping strategy has \<open>percentile_threshold\<close> 70,
  \<open>min_progression\<close> 0.3, \<open>min_curves\<close> 5, \<open>trial_indices_to_ignore\<close> \<open>None\<close> and
  \<open>normalize_progressions\<close> \<open>True\<close>; \<open>max_pending_trials\<close> is 5; \<open>total_trials\<close> is 6 when
  \<open>SMOKE_TEST\<close> is set and 15 otherwise.  The last part fails for a variable that is set
  to the empty string: \<open>if SMOKE_TEST:\<close> is false for it, and \<open>total_trials\<close> is 15.
\<close>

theorem total_trials_empty_smoke_test:
  "SMOKE_TEST environ_empty_smoke_test = Some ''''
   \<and> total_trials (options (scheduler (\<lambda>n. n) environ_empty_smoke_test ())) = 15"
  by (simp add: scheduler_def total_trials_budget_def SMOKE_TEST_def
      environ_empty_smoke_test_def)

text \<open>
  Claim C5, amended: as above, with \<open>total_trials\<close> 6 when \<open>SMOKE_TEST\<close> is set to a
  non-empty string, and 15 when it is unset or empty.  The notebook only passes these
  options on: the scheduler of the model stores them and computes nothing from them.
\<close>

theorem scheduler_configuration:
  "early_stopping_strategy (options (scheduler choose_generation_strategy environ experiment))
     = \<lparr>percentile_threshold = 70, min_progression = 3 / 10, min_curves = 5,
        trial_indices_to_ignore = None, normalize_progressions = True\<rparr>
   \<and> max_pending_trials (options (scheduler choose_generation_strategy environ experiment)) = 5
   \<and> total_trials (options (scheduler choose_generation_strategy environ experiment))
     = (if environ ''SMOKE_TEST'' = None \<or> environ ''SMOKE_TEST'' = Some '''' then 15 else 6)"
proof -
  have budget: "total_trials_budget environ
      = (if environ ''SMOKE_TEST'' = None \<or> environ ''SMOKE_TEST'' = Some '''' then 15 else 6)"
    by (cases "environ ''SMOKE_TEST''") (auto simp: total_trials_budget_def SMOKE_TEST_def)
  show ?thesis
    unfolding scheduler_def percentile_early_stopping_strategy_def using budget by simp
qed

section \<open>The savings estimate\<close>



lemma group_max_Max:
  assumes "k \<in> fst ` set rows"
  shows "group_max k rows = Max (snd ` {r \<in> set rows. fst r = k})"
proof -
  from assms have ne: "filter (\<lambda>r. fst r = k) rows \<noteq> []"
    by (auto simp: filter_empty_conv)
  then obtain v vs where vs: "map snd (filter (\<lambda>r. fst r = k) rows) = v # vs"
    by (cases "map snd (filter (\<lambda>r. fst r = k) rows)") auto
  have "group_max k rows = fold max vs v" by (simp add: group_max_def vs)
  also have "\<dots> = Max (set (v # vs))" by (rule Max.set_eq_fold [symmetric])
  also have "set (v # vs) = snd ` {r \<in> set rows. fst r = k}"
    unfolding vs [symmetric] by auto
  finally show ?thesis .
qed

text \<open>
  \<open>groupby_max\<close> has one entry per trial index of the frame, in ascending order of the
  index, and the entry of a trial is the greatest step among its rows.
\<close>

lemma groupby_max_entries:
  "map fst (groupby_max rows) = sort (remdups (map fst rows))"
  "(k, m) \<in> set (groupby_max rows) \<Longrightarrow> m = Max (snd ` {r \<in> set rows. fst r = k})"
proof -
  show "map fst (groupby_max rows) = sort (remdups (map fst rows))"
    by (simp add: groupby_max_def comp_def)
  assume "(k, m) \<in> set (groupby_max rows)"
  then have "k \<in> fst ` set rows" and "m = group_max k rows"
    by (auto simp: groupby_max_def)
  then show "m = Max (snd ` {r \<in> set rows. fst r = k})"
    using group_max_Max by simp
qed




section \<open>Relative start and completion times\<close>

lemma apply_rows_Inr:
  "apply_rows f xs = Inr vs \<Longrightarrow> length vs = length xs \<and> (\<forall>i<length xs. f (xs ! i) = Inr (vs ! i))"
proof (induction xs arbitrary: vs)
  case Nil
  then show ?case by simp
next
  case (Cons x xs)
  from Cons.prems obtain v vs' where v: "f x = Inr v" and vs': "apply_rows f xs = Inr vs'"
    and eq: "vs = v # vs'"
    by (auto split: sum.splits)
  from Cons.IH [OF vs'] have len: "length vs' = length xs"
    and nth: "\<forall>i<length xs. f (xs ! i) = Inr (vs' ! i)" by simp_all
  show ?case
  proof (intro conjI allI impI)
    show "length vs = length (x # xs)" using len eq by simp
    fix i assume "i < length (x # xs)"
    then show "f ((x # xs) ! i) = Inr (vs ! i)"
      using v nth eq by (cases i) simp_all
  qed
qed

lemma series_min_all_Some:
  "vs \<noteq> [] \<Longrightarrow> \<forall>v \<in> set vs. v \<noteq> None \<Longrightarrow> series_min vs = Some (Min (the ` set vs))"
proof (induction vs)
  case Nil
  then show ?case by simp
next
  case (Cons a vs)
  from Cons.prems obtain v where a: "a = Some v" by auto
  show ?case
  proof (cases "vs = []")
    case True
    then show ?thesis using a by simp
  next
    case False
    have "series_min vs = Some (Min (the ` set vs))"
      using Cons.IH False Cons.prems by simp
    moreover have "Min (the ` set (a # vs)) = min v (Min (the ` set vs))"
      using False a by simp
    ultimately show ?thesis using a by simp
  qed
qed

lemma apply_rows_total:
  "\<forall>x \<in> set xs. \<exists>v. f x = Inr v \<Longrightarrow> \<exists>vs. apply_rows f xs = Inr vs"
proof (induction xs)
  case Nil
  show ?case by simp
next
  case (Cons x xs)
  then obtain v vs where "f x = Inr v" "apply_rows f xs = Inr vs" by auto
  then show ?case by simp
qed

lemma filter_key_distinct:
  "distinct ks \<Longrightarrow>
   filter (\<lambda>r. fst r = i) (map (\<lambda>k. (k, g k)) ks) = (if i \<in> set ks then [(i, g i)] else [])"
  by (induction ks) auto

text \<open>The merged frame has one row for every row of the left frame whose trial has curve
  rows, with the trial's greatest step.\<close>

lemma merge_groupby_max:
  "merge_on_trial_index xs (groupby_max rows)
   = map (\<lambda>i. (i, group_max i rows)) (filter (\<lambda>i. i \<in> fst ` set rows) xs)"
proof -
  let ?ks = "sort (remdups (map fst rows))"
  have d: "distinct ?ks" by simp
  have ks: "set ?ks = fst ` set rows" by simp
  have one: "map (\<lambda>r. (i, snd r)) (filter (\<lambda>r. fst r = i) (groupby_max rows))
      = (if i \<in> fst ` set rows then [(i, group_max i rows)] else [])" for i
    unfolding groupby_max_def filter_key_distinct [OF d] ks by simp
  show ?thesis
    unfolding merge_on_trial_index_def one by (induction xs) simp_all
qed

lemma early_stopping_Inr:
  assumes ret: "early_stopping_exp_to_df exp_to_df lookup_map_df experiment_global experiment
      = Inr (trials_df, curve_df)"
  shows "\<exists>merged started completed.
      merged \<noteq> []
    \<and> length started = length merged \<and> length completed = length merged
    \<and> length trials_df = length merged
    \<and> (\<forall>i<length merged.
          time_started experiment_global (fst (merged ! i)) = Inr (started ! i)
        \<and> time_completed_of experiment_global (fst (merged ! i)) = Inr (completed ! i)
        \<and> trials_df ! i =
            \<lparr>row_trial_index = fst (merged ! i), steps = snd (merged ! i),
             time_started_col = started ! i, time_completed_col = completed ! i,
             time_started_rel = seconds_since (series_min started) (started ! i),
             time_completed_rel = seconds_since (series_min started) (completed ! i)\<rparr>)"
proof -
  from ret obtain curve_rows where
      col: "frame_column ''steps'' (lookup_map_df experiment) = Inr curve_rows"
    by (auto simp: early_stopping_exp_to_df_def Let_def split: sum.splits)
  let ?merged = "merge_on_trial_index (exp_to_df experiment) (groupby_max curve_rows)"
  from ret col have mne: "?merged \<noteq> []"
    by (auto simp: early_stopping_exp_to_df_def Let_def split: sum.splits if_splits)
  from ret col mne obtain started completed where
      st: "apply_rows (\<lambda>r. time_started experiment_global (fst r)) ?merged = Inr started"
    and co: "apply_rows (\<lambda>r. time_completed_of experiment_global (fst r)) ?merged = Inr completed"
    and df: "trials_df = map (\<lambda>(r, s, c).
                        \<lparr>row_trial_index = fst r, steps = snd r,
                         time_started_col = s, time_completed_col = c,
                         time_started_rel = seconds_since (series_min started) s,
                         time_completed_rel = seconds_since (series_min started) c\<rparr>)
                      (zip ?merged (zip started completed))"
    by (auto simp: early_stopping_exp_to_df_def Let_def split: sum.splits if_splits)
  from apply_rows_Inr [OF st] have ls: "length started = length ?merged"
    and ns: "\<forall>i<length ?merged. time_started experiment_global (fst (?merged ! i)) = Inr (started ! i)"
    by simp_all
  from apply_rows_Inr [OF co] have lc: "length completed = length ?merged"
    and nc: "\<forall>i<length ?merged. time_completed_of experiment_global (fst (?merged ! i)) = Inr (completed ! i)"
    by simp_all
  have ld: "length trials_df = length ?merged" unfolding df using ls lc by simp
  have nd: "trials_df ! i =
            \<lparr>row_trial_index = fst (?merged ! i), steps = snd (?merged ! i),
             time_started_col = started ! i, time_completed_col = completed ! i,
             time_started_rel = seconds_since (series_min started) (started ! i),
             time_completed_rel = seconds_since (series_min started) (completed ! i)\<rparr>"
    if "i < length ?merged" for i
    unfolding df using that ls lc by simp
  have "?merged \<noteq> []
    \<and> length started = length ?merged \<and> length completed = length ?merged
    \<and> length trials_df = length ?merged
    \<and> (\<forall>i<length ?merged.
          time_started experiment_global (fst (?merged ! i)) = Inr (started ! i)
        \<and> time_completed_of experiment_global (fst (?merged ! i)) = Inr (completed ! i)
        \<and> trials_df ! i =
            \<lparr>row_trial_index = fst (?merged ! i), steps = snd (?merged ! i),
             time_started_col = started ! i, time_completed_col = completed ! i,
             time_started_rel = seconds_since (series_min started) (started ! i),
             time_completed_rel = seconds_since (series_min started) (completed ! i)\<rparr>)"
    using mne ls lc ld ns nc nd by blast
  then show ?thesis by blast
qed

text \<open>The rows of a returned frame, relative to the earliest start among them.\<close>

lemma early_stopping_rows_relative:
  assumes times: "\<forall>t \<in> set (map snd (trials experiment_global)).
                    time_run_started t \<noteq> None \<and> time_completed t \<noteq> None"
    and ret: "early_stopping_exp_to_df exp_to_df lookup_map_df experiment_global experiment
                = Inr (trials_df, curve_df)"
  shows "(\<forall>r \<in> set trials_df. \<exists>trial s c.
            map_of (trials experiment_global) (row_trial_index r) = Some trial
          \<and> time_run_started trial = Some s \<and> time_completed trial = Some c
          \<and> time_started_col r = Some s \<and> time_completed_col r = Some c
          \<and> time_started_rel r = Some (s - earliest_start trials_df)
          \<and> time_completed_rel r = Some (c - earliest_start trials_df)
          \<and> 0 \<le> s - earliest_start trials_df
          \<and> (s \<le> c \<longrightarrow> s - earliest_start trials_df \<le> c - earliest_start trials_df))
       \<and> Min ((the \<circ> time_started_rel) ` set trials_df) = 0
       \<and> (distinct (map fst (trials experiment_global))
            \<and> fst ` set (trials experiment_global) \<subseteq> row_trial_index ` set trials_df
          \<longrightarrow> earliest_start trials_df = earliest_start_of_experiment experiment_global)"
proof -
  let ?trials = "trials experiment_global"
  from early_stopping_Inr [OF ret] obtain merged started completed where
      mne: "merged \<noteq> []"
    and ls: "length started = length merged"
    and lc: "length completed = length merged"
    and ld: "length trials_df = length merged"
    and rows: "\<forall>i<length merged.
          time_started experiment_global (fst (merged ! i)) = Inr (started ! i)
        \<and> time_completed_of experiment_global (fst (merged ! i)) = Inr (completed ! i)
        \<and> trials_df ! i =
            \<lparr>row_trial_index = fst (merged ! i), steps = snd (merged ! i),
             time_started_col = started ! i, time_completed_col = completed ! i,
             time_started_rel = seconds_since (series_min started) (started ! i),
             time_completed_rel = seconds_since (series_min started) (completed ! i)\<rparr>"
    by blast
  have lookup: "\<exists>trial s c. map_of ?trials (fst (merged ! i)) = Some trial
        \<and> time_run_started trial = Some s \<and> time_completed trial = Some c
        \<and> started ! i = Some s \<and> completed ! i = Some c"
    if i: "i < length merged" for i
  proof -
    from rows i have st: "time_started experiment_global (fst (merged ! i)) = Inr (started ! i)"
      and co: "time_completed_of experiment_global (fst (merged ! i)) = Inr (completed ! i)"
      by simp_all
    from st obtain trial where tr: "map_of ?trials (fst (merged ! i)) = Some trial"
      and s: "started ! i = time_run_started trial"
      by (auto simp: time_started_def split: option.splits)
    from co tr have c: "completed ! i = time_completed trial"
      by (simp add: time_completed_of_def)
    from tr have "(fst (merged ! i), trial) \<in> set ?trials" by (rule map_of_SomeD)
    then have "trial \<in> set (map snd ?trials)" by force
    with times obtain s' c' where "time_run_started trial = Some s'" "time_completed trial = Some c'"
      by auto
    with tr s c show ?thesis by simp
  qed
  have started_col: "map time_started_col trials_df = started"
    using ls ld rows by (intro nth_equalityI) simp_all
  have rel_col: "map time_started_rel trials_df = map (seconds_since (series_min started)) started"
    using ls ld rows by (intro nth_equalityI) simp_all
  have index_col: "map row_trial_index trials_df = map fst merged"
    using ld rows by (intro nth_equalityI) simp_all
  have all_some: "\<forall>v \<in> set started. v \<noteq> None"
  proof
    fix v assume "v \<in> set started"
    then obtain i where "i < length started" "v = started ! i" by (auto simp: in_set_conv_nth)
    with lookup [of i] ls show "v \<noteq> None" by auto
  qed
  have es: "earliest_start trials_df = Min (the ` set started)"
  proof -
    have "(the \<circ> time_started_col) ` set trials_df = the ` set (map time_started_col trials_df)"
      by (simp add: image_comp)
    then show ?thesis unfolding earliest_start_def started_col by simp
  qed
  have sm: "series_min started = Some (earliest_start trials_df)" if "merged \<noteq> []"
  proof -
    from that ls have "started \<noteq> []" by auto
    from series_min_all_Some [OF this all_some] show ?thesis using es by simp
  qed
  have part1: "\<exists>trial s c.
            map_of ?trials (row_trial_index r) = Some trial
          \<and> time_run_started trial = Some s \<and> time_completed trial = Some c
          \<and> time_started_col r = Some s \<and> time_completed_col r = Some c
          \<and> time_started_rel r = Some (s - earliest_start trials_df)
          \<and> time_completed_rel r = Some (c - earliest_start trials_df)
          \<and> 0 \<le> s - earliest_start trials_df
          \<and> (s \<le> c \<longrightarrow> s - earliest_start trials_df \<le> c - earliest_start trials_df)"
    if r: "r \<in> set trials_df" for r
  proof -
    from r obtain i where i: "i < length merged" and ri: "r = trials_df ! i"
      using ld by (auto simp: in_set_conv_nth)
    then have ne: "merged \<noteq> []" by auto
    from lookup [OF i] obtain trial s c where
        tr: "map_of ?trials (fst (merged ! i)) = Some trial"
      and ts: "time_run_started trial = Some s" and tc: "time_completed trial = Some c"
      and si: "started ! i = Some s" and ci: "completed ! i = Some c"
      by blast
    from rows i ri have row: "r =
            \<lparr>row_trial_index = fst (merged ! i), steps = snd (merged ! i),
             time_started_col = started ! i, time_completed_col = completed ! i,
             time_started_rel = seconds_since (series_min started) (started ! i),
             time_completed_rel = seconds_since (series_min started) (completed ! i)\<rparr>"
      by simp
    have "s \<in> the ` set started"
      using si i ls by (metis image_eqI nth_mem option.sel)
    then have le: "earliest_start trials_df \<le> s" unfolding es by (intro Min_le) simp_all
    have f1: "map_of ?trials (row_trial_index r) = Some trial" unfolding row using tr by simp
    have f2: "time_started_col r = Some s" "time_completed_col r = Some c"
      unfolding row using si ci by simp_all
    have f3: "time_started_rel r = Some (s - earliest_start trials_df)"
      "time_completed_rel r = Some (c - earliest_start trials_df)"
      unfolding row using si ci sm [OF ne] by simp_all
    have f4: "0 \<le> s - earliest_start trials_df" using le by simp
    have f5: "s \<le> c \<longrightarrow> s - earliest_start trials_df \<le> c - earliest_start trials_df" by simp
    from f1 ts tc f2 f3 f4 f5 show ?thesis by blast
  qed
  have ne: "trials_df \<noteq> []" using mne ld by auto
  have part2: "Min ((the \<circ> time_started_rel) ` set trials_df) = 0"
  proof (rule Min_eqI)
    show "finite ((the \<circ> time_started_rel) ` set trials_df)" by simp
  next
    fix y assume "y \<in> (the \<circ> time_started_rel) ` set trials_df"
    then obtain r where r: "r \<in> set trials_df" and y: "y = the (time_started_rel r)" by auto
    from part1 [OF r] obtain s where "time_started_rel r = Some (s - earliest_start trials_df)"
      and "0 \<le> s - earliest_start trials_df" by blast
    then show "0 \<le> y" using y by simp
  next
    from ne ld ls have sne: "started \<noteq> []" by auto
    then have "Min (the ` set started) \<in> the ` set started" by (intro Min_in) simp_all
    then obtain v where v: "v \<in> set started" and m: "the v = earliest_start trials_df"
      using es by auto
    from v obtain r where r: "r \<in> set trials_df" and rv: "time_started_col r = v"
      using started_col by (metis image_iff list.set_map)
    from part1 [OF r] obtain s where s: "time_started_col r = Some s"
      and rel: "time_started_rel r = Some (s - earliest_start trials_df)" by blast
    from s rv m have "s = earliest_start trials_df" by simp
    with rel have "the (time_started_rel r) = 0" by simp
    with r show "0 \<in> (the \<circ> time_started_rel) ` set trials_df" by force
  qed
  have part3: "earliest_start trials_df = earliest_start_of_experiment experiment_global"
    if d: "distinct (map fst ?trials)"
      and sub: "fst ` set ?trials \<subseteq> row_trial_index ` set trials_df"
  proof -
    have "the ` set started = (the \<circ> time_run_started \<circ> snd) ` set ?trials"
    proof (intro equalityI subsetI)
      fix x assume "x \<in> the ` set started"
      then obtain i where i: "i < length merged" and x: "x = the (started ! i)"
        using ls by (auto simp: in_set_conv_nth)
      from lookup [OF i] obtain trial s where
          tr: "map_of ?trials (fst (merged ! i)) = Some trial"
        and ts: "time_run_started trial = Some s" and si: "started ! i = Some s"
        by blast
      from tr have "(fst (merged ! i), trial) \<in> set ?trials" by (rule map_of_SomeD)
      then have "(the \<circ> time_run_started \<circ> snd) (fst (merged ! i), trial)
          \<in> (the \<circ> time_run_started \<circ> snd) ` set ?trials"
        by (rule imageI)
      then show "x \<in> (the \<circ> time_run_started \<circ> snd) ` set ?trials"
        using x ts si by simp
    next
      fix x assume "x \<in> (the \<circ> time_run_started \<circ> snd) ` set ?trials"
      then obtain k t where kt: "(k, t) \<in> set ?trials" and x: "x = the (time_run_started t)"
        by auto
      from kt sub have "k \<in> row_trial_index ` set trials_df" by force
      then have "k \<in> set (map row_trial_index trials_df)" by simp
      then have "k \<in> set (map fst merged)" unfolding index_col .
      then obtain i where i: "i < length merged" and ki: "fst (merged ! i) = k"
        by (auto simp: in_set_conv_nth)
      from d kt have mk: "map_of ?trials k = Some t" by (rule map_of_is_SomeI)
      from lookup [OF i] obtain trial s where
          tr: "map_of ?trials (fst (merged ! i)) = Some trial"
        and ts: "time_run_started trial = Some s" and si: "started ! i = Some s"
        by blast
      from tr mk ki have "trial = t" by simp
      then have "x = the (started ! i)" using x ts si by simp
      moreover have "started ! i \<in> set started" using i ls by simp
      ultimately show "x \<in> the ` set started" by blast
    qed
    then show ?thesis unfolding es earliest_start_of_experiment_def by simp
  qed
  show ?thesis using part1 part2 part3 by blast
qed


lemma steps_of_merged:
  assumes "map row_trial_index df = map fst merged"
    and "map steps df = map snd merged"
    and "merged = map (\<lambda>i. (i, h i)) kept"
  shows "\<forall>r \<in> set df. steps r = h (row_trial_index r)"
proof -
  have "map snd merged = map h (map fst merged)"
    unfolding assms(3) by (simp add: comp_def)
  also have "\<dots> = map h (map row_trial_index df)"
    by (simp only: assms(1))
  also have "\<dots> = map (\<lambda>r. h (row_trial_index r)) df"
    by (simp add: comp_def)
  finally have "map steps df = map (\<lambda>r. h (row_trial_index r)) df"
    by (simp only: assms(2))
  then show ?thesis by (simp only: map_eq_conv)
qed

text \<open>When the function returns, and which rows the frame then has.\<close>

lemma early_stopping_returns:
  assumes times: "\<forall>t \<in> set (map snd (trials experiment_global)).
                    time_run_started t \<noteq> None \<and> time_completed t \<noteq> None"
    and column: "frame_column ''steps'' (lookup_map_df experiment) = Inr curve_rows"
    and known: "set (exp_to_df experiment) \<subseteq> fst ` set (trials experiment_global)"
    and some: "\<exists>i \<in> set (exp_to_df experiment). i \<in> fst ` set curve_rows"
  shows "\<exists>trials_df.
      early_stopping_exp_to_df exp_to_df lookup_map_df experiment_global experiment
        = Inr (trials_df, lookup_map_df experiment)
    \<and> map row_trial_index trials_df
        = filter (\<lambda>i. i \<in> fst ` set curve_rows) (exp_to_df experiment)
    \<and> (\<forall>r \<in> set trials_df. steps r = group_max (row_trial_index r) curve_rows)"
proof -
  let ?trials = "trials experiment_global"
  let ?kept = "filter (\<lambda>i. i \<in> fst ` set curve_rows) (exp_to_df experiment)"
  let ?merged = "merge_on_trial_index (exp_to_df experiment) (groupby_max curve_rows)"
  have merged: "?merged = map (\<lambda>i. (i, group_max i curve_rows)) ?kept"
    by (rule merge_groupby_max)
  from some have kne: "?kept \<noteq> []" by (auto simp: filter_empty_conv)
  then have mne: "?merged \<noteq> []" unfolding merged by simp
  have found: "\<exists>trial s c. map_of ?trials (fst r) = Some trial
      \<and> time_run_started trial = Some s \<and> time_completed trial = Some c"
    if r: "r \<in> set ?merged" for r
  proof -
    from r have "fst r \<in> set (exp_to_df experiment)" unfolding merged by auto
    with known have "fst r \<in> fst ` set ?trials" by blast
    then obtain trial where tr: "map_of ?trials (fst r) = Some trial"
      by (metis domD dom_map_of_conv_image_fst)
    then have "(fst r, trial) \<in> set ?trials" by (rule map_of_SomeD)
    then have "trial \<in> set (map snd ?trials)" by force
    with times obtain s c where "time_run_started trial = Some s" "time_completed trial = Some c"
      by auto
    with tr show ?thesis by blast
  qed
  have "\<forall>r \<in> set ?merged. \<exists>v. time_started experiment_global (fst r) = Inr v"
    using found by (fastforce simp: time_started_def)
  from apply_rows_total [OF this] obtain started where
    st: "apply_rows (\<lambda>r. time_started experiment_global (fst r)) ?merged = Inr started"
    by blast
  have "\<forall>r \<in> set ?merged. \<exists>v. time_completed_of experiment_global (fst r) = Inr v"
    using found by (fastforce simp: time_completed_of_def)
  from apply_rows_total [OF this] obtain completed where
    co: "apply_rows (\<lambda>r. time_completed_of experiment_global (fst r)) ?merged = Inr completed"
    by blast
  from apply_rows_Inr [OF st] have ls: "length started = length ?merged"
    and ns: "\<forall>i<length ?merged. time_started experiment_global (fst (?merged ! i)) = Inr (started ! i)"
    by simp_all
  from apply_rows_Inr [OF co] have lc: "length completed = length ?merged"
    and nc: "\<forall>i<length ?merged. time_completed_of experiment_global (fst (?merged ! i)) = Inr (completed ! i)"
    by simp_all
  have zero: "0 < length ?merged" using mne by simp
  from found [of "?merged ! 0"] zero obtain trial s c where
      tr: "map_of ?trials (fst (?merged ! 0)) = Some trial"
    and s: "time_run_started trial = Some s" and c: "time_completed trial = Some c"
    by auto
  from ns zero have "time_started experiment_global (fst (?merged ! 0)) = Inr (started ! 0)"
    by blast
  with tr s have "started ! 0 = Some s" by (simp add: time_started_def)
  then have "Some s \<in> set started" using zero ls by (metis nth_mem)
  then have some_started: "\<not> list_all (\<lambda>v. v = None) started"
    by (auto simp: list_all_iff)
  from nc zero
  have "time_completed_of experiment_global (fst (?merged ! 0)) = Inr (completed ! 0)"
    by blast
  with tr c have "completed ! 0 = Some c" by (simp add: time_completed_of_def)
  then have "Some c \<in> set completed" using zero lc by (metis nth_mem)
  then have some_completed: "\<not> list_all (\<lambda>v. v = None) completed"
    by (auto simp: list_all_iff)
  let ?df = "map (\<lambda>(r, s, c).
                \<lparr>row_trial_index = fst r, steps = snd r,
                 time_started_col = s, time_completed_col = c,
                 time_started_rel = seconds_since (series_min started) s,
                 time_completed_rel = seconds_since (series_min started) c\<rparr>)
              (zip ?merged (zip started completed))"
  have run: "early_stopping_exp_to_df exp_to_df lookup_map_df experiment_global experiment
      = Inr (?df, lookup_map_df experiment)"
    using column mne st co some_started some_completed
    by (simp add: early_stopping_exp_to_df_def Let_def)
  have idx: "map row_trial_index ?df = map fst ?merged"
    using ls lc by (intro nth_equalityI) simp_all
  have stp: "map steps ?df = map snd ?merged"
    using ls lc by (intro nth_equalityI) simp_all
  have "map fst ?merged = ?kept" by (simp add: merged comp_def)
  then have rows_idx: "map row_trial_index ?df = ?kept" using idx by (simp only:)
  have len: "length ?df = length ?merged" using ls lc by simp
  have rows_steps: "\<forall>r \<in> set ?df. steps r = group_max (row_trial_index r) curve_rows"
    using idx stp merged by (rule steps_of_merged)
  have "early_stopping_exp_to_df exp_to_df lookup_map_df experiment_global experiment
        = Inr (?df, lookup_map_df experiment)
    \<and> map row_trial_index ?df = ?kept
    \<and> (\<forall>r \<in> set ?df. steps r = group_max (row_trial_index r) curve_rows)"
    by (intro conjI run rows_idx rows_steps)
  then show ?thesis by (rule exI)
qed

lemma early_stopping_timed:
  "early_stopping_exp_to_df exp_to_df_indices curve_frame_timed experiment_timed experiment_timed
     = Inr (trials_df_timed, curve_frame_timed experiment_timed)"
  by (simp add: early_stopping_exp_to_df_def exp_to_df_indices_def curve_frame_timed_def
      frame_column_def experiment_timed_def timed_trial_def trials_df_timed_def groupby_max_def
      group_max_def merge_on_trial_index_def time_started_def time_completed_of_def Let_def)

lemma experiment_timed_has_times:
  "\<forall>t \<in> set (map snd (trials experiment_timed)).
     time_run_started t \<noteq> None \<and> time_completed t \<noteq> None"
  by (simp add: experiment_timed_def timed_trial_def)

text \<open>
  Claim C7 reads: for an experiment whose trials all have start and completion times,
  the frame gives each trial the seconds between the minimum start time over all trials
  and the trial's start.  It fails when the earliest trial has no row in the curve
  frame: the merge drops that trial and the times are measured from the earliest of the
  remaining ones.  With trials started at seconds 100 and 110 and curve rows for the
  second only, the frame's single row has \<open>time_started_rel = 0\<close>, not 10.
\<close>

theorem early_stopping_exp_to_df_dropped_trial:
  "early_stopping_exp_to_df exp_to_df_indices curve_frame_second_only
      experiment_late_curve experiment_late_curve
    = Inr ([\<lparr>row_trial_index = 1, steps = 1, time_started_col = Some 110,
             time_completed_col = Some 130, time_started_rel = Some 0,
             time_completed_rel = Some 20\<rparr>],
           curve_frame_second_only experiment_late_curve)
   \<and> earliest_start_of_experiment experiment_late_curve = 100"
  by (simp add: early_stopping_exp_to_df_def exp_to_df_indices_def curve_frame_second_only_def
      frame_column_def earliest_start_of_experiment_def
      experiment_late_curve_def timed_trial_def groupby_max_def group_max_def
      merge_on_trial_index_def time_started_def time_completed_of_def Let_def)

text \<open>
  Claim C7, amended.  Let every trial of the experiment have a start and a completion
  time, let the curve frame have a column \<open>"steps"\<close>, let every row of \<open>exp_to_df\<close> belong
  to a trial of the experiment, and let at least one of them have a row in the curve
  frame.  Then \<open>early_stopping_exp_to_df\<close> returns, with the curve frame as read and a
  trials frame that has one row for each row of \<open>exp_to_df\<close> whose trial has curve rows,
  in the same order, with \<open>steps\<close> the trial's greatest step.  Every row has its trial's
  two times; its \<open>time_started_rel\<close> is the trial's start time minus the minimum start
  time over the trials of the returned frame, in seconds, and is not negative; its
  \<open>time_completed_rel\<close> is the completion time minus the same minimum, and is at least
  \<open>time_started_rel\<close> when the trial did not complete before it started.  The minimum
  \<open>time_started_rel\<close> over the rows is 0.  When every trial of the experiment has a row in
  the frame, the minimum is the minimum start time over all trials of the experiment.
  In the notebook the experiment the helpers read (\<open>experiment_global\<close>) and the argument
  are the same object.
\<close>

theorem early_stopping_exp_to_df_relative_times:
  assumes times: "\<forall>t \<in> set (map snd (trials experiment_global)).
                    time_run_started t \<noteq> None \<and> time_completed t \<noteq> None"
    and column: "frame_column ''steps'' (lookup_map_df experiment) = Inr curve_rows"
    and known: "set (exp_to_df experiment) \<subseteq> fst ` set (trials experiment_global)"
    and some: "\<exists>i \<in> set (exp_to_df experiment). i \<in> fst ` set curve_rows"
  shows "\<exists>trials_df.
      early_stopping_exp_to_df exp_to_df lookup_map_df experiment_global experiment
        = Inr (trials_df, lookup_map_df experiment)
    \<and> map row_trial_index trials_df
        = filter (\<lambda>i. i \<in> fst ` set curve_rows) (exp_to_df experiment)
    \<and> (\<forall>r \<in> set trials_df. steps r = group_max (row_trial_index r) curve_rows)
    \<and> (\<forall>r \<in> set trials_df. \<exists>trial s c.
            map_of (trials experiment_global) (row_trial_index r) = Some trial
          \<and> time_run_started trial = Some s \<and> time_completed trial = Some c
          \<and> time_started_col r = Some s \<and> time_completed_col r = Some c
          \<and> time_started_rel r = Some (s - earliest_start trials_df)
          \<and> time_completed_rel r = Some (c - earliest_start trials_df)
          \<and> 0 \<le> s - earliest_start trials_df
          \<and> (s \<le> c \<longrightarrow> s - earliest_start trials_df \<le> c - earliest_start trials_df))
    \<and> Min ((the \<circ> time_started_rel) ` set trials_df) = 0
    \<and> (distinct (map fst (trials experiment_global))
         \<and> fst ` set (trials experiment_global) \<subseteq> row_trial_index ` set trials_df
       \<longrightarrow> earliest_start trials_df = earliest_start_of_experiment experiment_global)"
proof -
  from early_stopping_returns
    [where exp_to_df = exp_to_df and lookup_map_df = lookup_map_df,
     OF times column known some]
  obtain trials_df where
      ret: "early_stopping_exp_to_df exp_to_df lookup_map_df experiment_global experiment
        = Inr (trials_df, lookup_map_df experiment)"
    and idx: "map row_trial_index trials_df
        = filter (\<lambda>i. i \<in> fst ` set curve_rows) (exp_to_df experiment)"
    and stp: "\<forall>r \<in> set trials_df. steps r = group_max (row_trial_index r) curve_rows"
    by blast
  note rel = early_stopping_rows_relative [OF times ret]
  from rel have r1: "\<forall>r \<in> set trials_df. \<exists>trial s c.
            map_of (trials experiment_global) (row_trial_index r) = Some trial
          \<and> time_run_started trial = Some s \<and> time_completed trial = Some c
          \<and> time_started_col r = Some s \<and> time_completed_col r = Some c
          \<and> time_started_rel r = Some (s - earliest_start trials_df)
          \<and> time_completed_rel r = Some (c - earliest_start trials_df)
          \<and> 0 \<le> s - earliest_start trials_df
          \<and> (s \<le> c \<longrightarrow> s - earliest_start trials_df \<le> c - earliest_start trials_df)"
    by (rule conjunct1)
  from rel have r2: "Min ((the \<circ> time_started_rel) ` set trials_df) = 0"
    by (rule conjunct1 [OF conjunct2])
  from rel have r3: "distinct (map fst (trials experiment_global))
         \<and> fst ` set (trials experiment_global) \<subseteq> row_trial_index ` set trials_df
       \<longrightarrow> earliest_start trials_df = earliest_start_of_experiment experiment_global"
    by (rule conjunct2 [OF conjunct2])
  have "early_stopping_exp_to_df exp_to_df lookup_map_df experiment_global experiment
        = Inr (trials_df, lookup_map_df experiment)
    \<and> map row_trial_index trials_df
        = filter (\<lambda>i. i \<in> fst ` set curve_rows) (exp_to_df experiment)
    \<and> (\<forall>r \<in> set trials_df. steps r = group_max (row_trial_index r) curve_rows)
    \<and> (\<forall>r \<in> set trials_df. \<exists>trial s c.
            map_of (trials experiment_global) (row_trial_index r) = Some trial
          \<and> time_run_started trial = Some s \<and> time_completed trial = Some c
          \<and> time_started_col r = Some s \<and> time_completed_col r = Some c
          \<and> time_started_rel r = Some (s - earliest_start trials_df)
          \<and> time_completed_rel r = Some (c - earliest_start trials_df)
          \<and> 0 \<le> s - earliest_start trials_df
          \<and> (s \<le> c \<longrightarrow> s - earliest_start trials_df \<le> c - earliest_start trials_df))
    \<and> Min ((the \<circ> time_started_rel) ` set trials_df) = 0
    \<and> (distinct (map fst (trials experiment_global))
         \<and> fst ` set (trials experiment_global) \<subseteq> row_trial_index ` set trials_df
       \<longrightarrow> earliest_start trials_df = earliest_start_of_experiment experiment_global)"
    by (intro conjI ret idx stp r1 r2 r3)
  then show ?thesis by (rule exI)
qed

theorem early_stopping_exp_to_df_relative_times_witness:
  "early_stopping_exp_to_df exp_to_df_indices curve_frame_timed experiment_timed experiment_timed
     = Inr (trials_df_timed, curve_frame_timed experiment_timed)
   \<and> (\<exists>trials_df.
         early_stopping_exp_to_df exp_to_df_indices curve_frame_timed experiment_timed
           experiment_timed
           = Inr (trials_df, curve_frame_timed experiment_timed)
       \<and> map row_trial_index trials_df = [0, 1]
       \<and> Min ((the \<circ> time_started_rel) ` set trials_df) = 0)"
proof -
  have column: "frame_column ''steps'' (curve_frame_timed experiment_timed)
      = Inr [(0, 1), (0, 2), (1, 1)]"
    by (simp add: frame_column_def curve_frame_timed_def)
  have known: "set (exp_to_df_indices experiment_timed) \<subseteq> fst ` set (trials experiment_timed)"
    by (simp add: exp_to_df_indices_def)
  have some: "\<exists>i \<in> set (exp_to_df_indices experiment_timed).
      i \<in> fst ` set [(0, 1), (0, 2), (1 :: nat, 1 :: real)]"
    by (auto simp: exp_to_df_indices_def experiment_timed_def)
  have kept: "filter (\<lambda>i. i \<in> fst ` set [(0, 1), (0, 2), (1 :: nat, 1 :: real)])
      (exp_to_df_indices experiment_timed) = [0, 1]"
    by (simp add: exp_to_df_indices_def experiment_timed_def)
  from early_stopping_exp_to_df_relative_times
    [where exp_to_df = exp_to_df_indices and lookup_map_df = curve_frame_timed,
     OF experiment_timed_has_times column known some]
  have "\<exists>trials_df.
         early_stopping_exp_to_df exp_to_df_indices curve_frame_timed experiment_timed
           experiment_timed
           = Inr (trials_df, curve_frame_timed experiment_timed)
       \<and> map row_trial_index trials_df = [0, 1]
       \<and> Min ((the \<circ> time_started_rel) ` set trials_df) = 0"
    unfolding kept by (elim exE conjE) (intro exI conjI, assumption+)
  then show ?thesis using early_stopping_timed by (intro conjI)
qed

end
